theory Spec2Isabelle
  imports Complex_Main
begin

section \<open>pxd: the tag worker and its command-line client\<close>

text \<open>
  A shallow embedding of the worker's request handler (\<open>fetch\<close>, with \<open>generateId\<close> and
  \<open>getRole\<close>), of the D1 tables it reads and writes, and of the cache-aware command-line
  client (\<open>cacheSet\<close>, \<open>cmdNew\<close>, \<open>cmdShow\<close>, \<open>cmdLink\<close>, \<open>getKey\<close>).

  Conventions. JavaScript strings are \<open>string\<close>; an optional field or a missing header is
  an \<open>option\<close>; \<open>Math.random()\<close> is the next element of a sequence \<open>rnd\<close> of reals, the
  number of elements consumed so far being part of the state; \<open>Date.now()\<close> is a
  parameter; a rejected promise is the outcome \<open>Threw\<close>.
\<close>

subsection \<open>JavaScript helpers\<close>

text \<open>A JSON value, as carried by the \<open>meta\<close> field.\<close>

datatype jsonval =
    JNull
  | JBool bool
  | JNum int
  | JStr string
  | JArr "jsonval list"
  | JObj "(string \<times> jsonval) list"

text \<open>JavaScript truthiness of a JSON value (\<open>body.meta || {}\<close>).\<close>

fun truthy :: "jsonval \<Rightarrow> bool" where
  "truthy JNull = False"
| "truthy (JBool b) = b"
| "truthy (JNum n) = (n \<noteq> 0)"
| "truthy (JStr s) = (s \<noteq> [])"
| "truthy (JArr xs) = True"
| "truthy (JObj kvs) = True"

text \<open>Truthiness of an optional string: \<open>undefined\<close> and the empty string are falsy.\<close>

fun truthy_str :: "string option \<Rightarrow> bool" where
  "truthy_str None = False"
| "truthy_str (Some s) = (s \<noteq> [])"

text \<open>\<open>s.startsWith(pre)\<close>.\<close>

definition startsWith :: "string \<Rightarrow> string \<Rightarrow> bool" where
  "startsWith pre s = (take (length pre) s = pre)"

text \<open>\<open>s.split(c)\<close> for a one-character separator: the empty string gives one empty part.\<close>

fun split_on :: "char \<Rightarrow> string \<Rightarrow> string list" where
  "split_on c [] = [[]]"
| "split_on c (x # xs) =
     (if x = c then [] # split_on c xs
      else (case split_on c xs of
              [] \<Rightarrow> [[x]]
            | y # ys \<Rightarrow> (x # y) # ys))"

text \<open>\<open>parts[n]\<close>: \<open>undefined\<close> (here \<open>None\<close>) out of range.\<close>

definition at_index :: "'a list \<Rightarrow> nat \<Rightarrow> 'a option" where
  "at_index xs n = (if n < length xs then Some (xs ! n) else None)"

text \<open>The character classes \<open>[a-z0-9]\<close> and \<open>[a-z]\<close> of the two route patterns.\<close>

definition lower_alnum :: "char \<Rightarrow> bool" where
  "lower_alnum c = (c \<in> set ''abcdefghijklmnopqrstuvwxyz0123456789'')"

definition lower_alpha :: "char \<Rightarrow> bool" where
  "lower_alpha c = (c \<in> set ''abcdefghijklmnopqrstuvwxyz'')"

text \<open>
  \<open>path.match(/^\/id\/[a-z0-9]+\/link$/)\<close>. The class excludes \<open>/\<close>, so the greedy run
  of class characters after \<open>/id/\<close> is the only candidate for the middle segment.
\<close>

definition match_add_link :: "string \<Rightarrow> bool" where
  "match_add_link path =
     (startsWith ''/id/'' path \<and>
      takeWhile lower_alnum (drop 4 path) \<noteq> [] \<and>
      dropWhile lower_alnum (drop 4 path) = ''/link'')"

text \<open>\<open>path.match(/^\/id\/[a-z0-9]+\/link\/[a-z]+$/)\<close>.\<close>

definition match_remove_link :: "string \<Rightarrow> bool" where
  "match_remove_link path =
     (startsWith ''/id/'' path \<and>
      takeWhile lower_alnum (drop 4 path) \<noteq> [] \<and>
      startsWith ''/link/'' (dropWhile lower_alnum (drop 4 path)) \<and>
      drop 6 (dropWhile lower_alnum (drop 4 path)) \<noteq> [] \<and>
      list_all lower_alpha (drop 6 (dropWhile lower_alnum (drop 4 path))))"

subsection \<open>The ID generator\<close>

definition CHARSET :: string where
  "CHARSET = ''abcdefghijkmnpqrstuvwxyz23456789''"

text \<open>
  \<open>CHARSET[Math.floor(r * CHARSET.length)]\<close> for one draw \<open>r\<close>. An index outside the
  string gives \<open>undefined\<close>, which \<open>join('')\<close> renders as the empty string.
\<close>

definition pick :: "real \<Rightarrow> string" where
  "pick r =
     (let i = \<lfloor>r * real (length CHARSET)\<rfloor>
      in if 0 \<le> i \<and> i < int (length CHARSET) then [CHARSET ! nat i] else [])"

text \<open>
  \<open>generateId()\<close>, reading the seven draws \<open>rnd pos, \<dots>, rnd (pos + 6)\<close>.
\<close>

definition generateId :: "(nat \<Rightarrow> real) \<Rightarrow> nat \<Rightarrow> string" where
  "generateId rnd pos = ''px'' @ concat (map (\<lambda>k. pick (rnd (pos + k))) [0..<7])"

subsection \<open>The authorization gate\<close>

datatype Role = admin | agent | none

text \<open>
  The two configured secrets. A secret that is not configured is \<open>undefined\<close> in
  JavaScript and equals no string; here it is the empty string, which \<open>getRole\<close> never
  compares with (an empty key is falsy).
\<close>

record Env =
  PXD_ADMIN_KEY :: string
  PXD_AGENT_KEY :: string

text \<open>The JSON body of a request, with the fields the handlers read.\<close>

record body =
  b_name :: "string option"
  b_meta :: "jsonval option"
  b_type :: "string option"
  b_url :: "string option"

text \<open>
  A request: method, \<open>url.pathname\<close>, the \<open>q\<close> search parameter, the \<open>X-PXD-Key\<close>
  header, and the parsed body (\<open>None\<close> when \<open>request.json()\<close> rejects).
\<close>

record request =
  r_method :: string
  r_path :: string
  r_q :: "string option"
  r_key :: "string option"
  r_body :: "body option"

definition getRole :: "request \<Rightarrow> Env \<Rightarrow> Role" where
  "getRole req env =
     (case r_key req of
        None \<Rightarrow> none
      | Some key \<Rightarrow>
          if key = [] then none
          else if key = PXD_ADMIN_KEY env then admin
          else if key = PXD_AGENT_KEY env then agent
          else none)"

subsection \<open>The record store (the D1 tables)\<close>

text \<open>
  A row of \<open>tags\<close> and a row of \<open>links\<close>. The \<open>meta\<close> column holds the text
  \<open>JSON.stringify\<close> made of a value and is read back with \<open>JSON.parse\<close>; the model keeps
  the value.
\<close>

record tag_row =
  t_id :: string
  t_name :: string
  t_meta :: jsonval
  t_created_at :: int
  t_updated_at :: int

record link_row =
  l_id :: nat
  l_tag_id :: string
  l_type :: string
  l_url :: string
  l_created_at :: int

text \<open>
  The state a request runs in: both tables in insertion order, the AUTOINCREMENT counter
  of \<open>links\<close>, and the number of \<open>Math.random()\<close> draws made so far.
\<close>

record world =
  tags :: "tag_row list"
  links :: "link_row list"
  link_seq :: nat
  draws :: nat

text \<open>\<open>SELECT \<dots> FROM tags WHERE id = ?\<close> followed by \<open>first()\<close>.\<close>

definition first_tag :: "string \<Rightarrow> tag_row list \<Rightarrow> tag_row option" where
  "first_tag i ts = find (\<lambda>t. t_id t = i) ts"

text \<open>
  \<open>INSERT INTO tags\<close>: the primary key rejects an id that is already there (the
  statement throws).
\<close>

definition insert_tag :: "tag_row \<Rightarrow> world \<Rightarrow> world option" where
  "insert_tag row w =
     (if first_tag (t_id row) (tags w) \<noteq> None then None
      else Some (w\<lparr>tags := tags w @ [row]\<rparr>))"

text \<open>
  \<open>INSERT INTO links (tag_id, type, url, created_at)\<close>: the row id comes from the
  counter; the foreign key rejects a \<open>tag_id\<close> with no tag.
\<close>

definition insert_link :: "string \<Rightarrow> string \<Rightarrow> string \<Rightarrow> int \<Rightarrow> world \<Rightarrow> world option" where
  "insert_link i ty u now w =
     (if first_tag i (tags w) = None then None
      else Some (w\<lparr>links := links w @
                   [\<lparr>l_id = Suc (link_seq w), l_tag_id = i, l_type = ty, l_url = u,
                     l_created_at = now\<rparr>],
                 link_seq := Suc (link_seq w)\<rparr>))"

text \<open>
  \<open>UPDATE tags SET \<dots> WHERE id = ?\<close>, as the PUT handler builds it: \<open>name = ?\<close> when
  the handler pushed a name, \<open>meta = ?\<close> when it pushed a meta, and \<open>updated_at = ?\<close>
  always.
\<close>

definition update_tag ::
  "string \<Rightarrow> string option \<Rightarrow> jsonval option \<Rightarrow> int \<Rightarrow> world \<Rightarrow> world" where
  "update_tag i new_name new_meta now w =
     w\<lparr>tags := map (\<lambda>t. if t_id t = i
                          then t\<lparr>t_name := (case new_name of None \<Rightarrow> t_name t | Some n \<Rightarrow> n),
                                 t_meta := (case new_meta of None \<Rightarrow> t_meta t | Some m \<Rightarrow> m),
                                 t_updated_at := now\<rparr>
                          else t) (tags w)\<rparr>"

text \<open>\<open>DELETE FROM tags WHERE id = ?\<close>, with \<open>ON DELETE CASCADE\<close> on \<open>links.tag_id\<close>.\<close>

definition delete_tag :: "string \<Rightarrow> world \<Rightarrow> world" where
  "delete_tag i w =
     w\<lparr>tags := filter (\<lambda>t. t_id t \<noteq> i) (tags w),
       links := filter (\<lambda>l. l_tag_id l \<noteq> i) (links w)\<rparr>"

text \<open>\<open>DELETE FROM links WHERE tag_id = ? AND type = ?\<close>.\<close>

definition delete_links :: "string \<Rightarrow> string \<Rightarrow> world \<Rightarrow> world" where
  "delete_links i ty w =
     w\<lparr>links := filter (\<lambda>l. \<not> (l_tag_id l = i \<and> l_type l = ty)) (links w)\<rparr>"

text \<open>\<open>SELECT type, url FROM links WHERE tag_id = ?\<close>.\<close>

definition links_of :: "string \<Rightarrow> world \<Rightarrow> (string \<times> string) list" where
  "links_of i w = map (\<lambda>l. (l_type l, l_url l)) (filter (\<lambda>l. l_tag_id l = i) (links w))"

text \<open>SQLite's \<open>LIKE\<close>: \<open>%\<close> is any run, \<open>_\<close> any one character, ASCII letters fold.\<close>

definition lower_char :: "char \<Rightarrow> char" where
  "lower_char c =
     (case map_of (zip ''ABCDEFGHIJKLMNOPQRSTUVWXYZ'' ''abcdefghijklmnopqrstuvwxyz'') c of
        None \<Rightarrow> c
      | Some d \<Rightarrow> d)"

fun sql_like :: "string \<Rightarrow> string \<Rightarrow> bool" where
  "sql_like [] s = (s = [])"
| "sql_like (p # ps) [] = (p = CHR ''%'' \<and> sql_like ps [])"
| "sql_like (p # ps) (c # cs) =
     (if p = CHR ''%'' then sql_like ps (c # cs) \<or> sql_like (p # ps) cs
      else (p = CHR ''_'' \<or> lower_char p = lower_char c) \<and> sql_like ps cs)"

text \<open>
  \<open>ORDER BY updated_at DESC LIMIT n\<close>. SQL leaves the order of equal keys open; the
  model keeps them in table order.
\<close>

definition newest_first :: "nat \<Rightarrow> tag_row list \<Rightarrow> tag_row list" where
  "newest_first n ts = take n (sort_key (\<lambda>t. - t_updated_at t) ts)"

definition search_tags :: "string \<Rightarrow> world \<Rightarrow> tag_row list" where
  "search_tags q w =
     newest_first 50 (filter (\<lambda>t. sql_like (''%'' @ q @ ''%'') (t_name t)) (tags w))"

definition list_tags :: "world \<Rightarrow> (string \<times> string \<times> int \<times> int) list" where
  "list_tags w =
     map (\<lambda>t. (t_id t, t_name t, t_created_at t, t_updated_at t)) (newest_first 100 (tags w))"

subsection \<open>Responses\<close>

datatype payload =
    P_ok
  | P_error string
  | P_created string string jsonval int
  | P_tag tag_row "(string \<times> string) list"
  | P_search "tag_row list"
  | P_list "(string \<times> string \<times> int \<times> int) list"

record response =
  data :: payload
  status :: nat

datatype outcome = Returned response | Threw

definition json :: "payload \<Rightarrow> nat \<Rightarrow> response" where
  "json d st = \<lparr>data = d, status = st\<rparr>"

definition error :: "string \<Rightarrow> nat \<Rightarrow> response" where
  "error message st = json (P_error message) st"

subsection \<open>The request handler\<close>

text \<open>
  The collision loop of \<open>POST /id\<close>: a \<open>do \<dots> while (attempts < 10)\<close> that draws an id,
  looks it up, leaves at the first free id and counts an attempt otherwise. It returns
  the last id drawn, the final \<open>attempts\<close>, and the position in the random sequence.
\<close>

function alloc_loop ::
  "(nat \<Rightarrow> real) \<Rightarrow> tag_row list \<Rightarrow> nat \<Rightarrow> nat \<Rightarrow> string \<times> nat \<times> nat" where
  "alloc_loop rnd ts attempts pos =
     (if first_tag (generateId rnd pos) ts = None then (generateId rnd pos, attempts, pos + 7)
      else if Suc attempts < 10 then alloc_loop rnd ts (Suc attempts) (pos + 7)
      else (generateId rnd pos, Suc attempts, pos + 7))"
  by pat_completeness auto
termination
  by (relation "measure (\<lambda>(rnd, ts, attempts, pos). 10 - attempts)") auto

declare alloc_loop.simps [simp del]

definition handle_create :: "(nat \<Rightarrow> real) \<Rightarrow> int \<Rightarrow> request \<Rightarrow> world \<Rightarrow> outcome \<times> world" where
  "handle_create rnd now req w =
     (case r_body req of
        None \<Rightarrow> (Threw, w)
      | Some b \<Rightarrow>
          if \<not> truthy_str (b_name b) then (Returned (error ''name required'' 400), w)
          else
            (case alloc_loop rnd (tags w) 0 (draws w) of
               (i, attempts, pos) \<Rightarrow>
                 let w1 = w\<lparr>draws := pos\<rparr>;
                     m = (case b_meta b of None \<Rightarrow> JObj []
                          | Some v \<Rightarrow> if truthy v then v else JObj [])
                 in if attempts \<ge> 10
                    then (Returned (error ''Failed to generate unique ID'' 500), w1)
                    else
                      (case insert_tag \<lparr>t_id = i, t_name = the (b_name b), t_meta = m,
                                        t_created_at = now, t_updated_at = now\<rparr> w1 of
                         None \<Rightarrow> (Threw, w1)
                       | Some w2 \<Rightarrow>
                           (Returned (json (P_created i (the (b_name b)) m now) 201), w2))))"

definition handle_get :: "request \<Rightarrow> world \<Rightarrow> outcome \<times> world" where
  "handle_get req w =
     (let i = drop 4 (r_path req)
      in case first_tag i (tags w) of
           None \<Rightarrow> (Returned (error ''Not found'' 404), w)
         | Some tag \<Rightarrow> (Returned (json (P_tag tag (links_of i w)) 200), w))"

definition handle_update :: "Role \<Rightarrow> int \<Rightarrow> request \<Rightarrow> world \<Rightarrow> outcome \<times> world" where
  "handle_update role now req w =
     (if role \<noteq> admin then (Returned (error ''Admin required'' 403), w)
      else
        let i = drop 4 (r_path req)
        in case r_body req of
             None \<Rightarrow> (Threw, w)
           | Some b \<Rightarrow>
               if first_tag i (tags w) = None then (Returned (error ''Not found'' 404), w)
               else
                 (Returned (json P_ok 200),
                  update_tag i (if truthy_str (b_name b) then b_name b else None)
                    (b_meta b) now w))"

definition handle_delete :: "Role \<Rightarrow> request \<Rightarrow> world \<Rightarrow> outcome \<times> world" where
  "handle_delete role req w =
     (if role \<noteq> admin then (Returned (error ''Admin required'' 403), w)
      else (Returned (json P_ok 200), delete_tag (drop 4 (r_path req)) w))"

definition handle_add_link :: "int \<Rightarrow> request \<Rightarrow> world \<Rightarrow> outcome \<times> world" where
  "handle_add_link now req w =
     (case at_index (split_on CHR ''/'' (r_path req)) 2 of
        None \<Rightarrow> (Threw, w)
      | Some i \<Rightarrow>
          (case r_body req of
             None \<Rightarrow> (Threw, w)
           | Some b \<Rightarrow>
               if \<not> truthy_str (b_type b) \<or> \<not> truthy_str (b_url b)
               then (Returned (error ''type and url required'' 400), w)
               else if first_tag i (tags w) = None
               then (Returned (error ''Tag not found'' 404), w)
               else
                 (case insert_link i (the (b_type b)) (the (b_url b)) now w of
                    None \<Rightarrow> (Threw, w)
                  | Some w1 \<Rightarrow> (Returned (json P_ok 201), w1))))"

definition handle_remove_link :: "Role \<Rightarrow> request \<Rightarrow> world \<Rightarrow> outcome \<times> world" where
  "handle_remove_link role req w =
     (if role \<noteq> admin then (Returned (error ''Admin required'' 403), w)
      else
        (case (at_index (split_on CHR ''/'' (r_path req)) 2,
               at_index (split_on CHR ''/'' (r_path req)) 4) of
           (Some i, Some ty) \<Rightarrow> (Returned (json P_ok 200), delete_links i ty w)
         | _ \<Rightarrow> (Threw, w)))"

text \<open>
  \<open>fetch\<close>: the routes in the order of the source; the first whose test holds answers.
\<close>

definition fetch ::
  "Env \<Rightarrow> (nat \<Rightarrow> real) \<Rightarrow> int \<Rightarrow> request \<Rightarrow> world \<Rightarrow> outcome \<times> world" where
  "fetch env rnd now req w =
     (let path = r_path req; method = r_method req; role = getRole req env
      in if path = ''/health'' then (Returned (json P_ok 200), w)
         else if role = none then (Returned (error ''Unauthorized'' 401), w)
         else if method = ''POST'' \<and> path = ''/id'' then handle_create rnd now req w
         else if method = ''GET'' \<and> startsWith ''/id/'' path then handle_get req w
         else if method = ''PUT'' \<and> startsWith ''/id/'' path then handle_update role now req w
         else if method = ''DELETE'' \<and> startsWith ''/id/'' path then handle_delete role req w
         else if method = ''POST'' \<and> match_add_link path then handle_add_link now req w
         else if method = ''DELETE'' \<and> match_remove_link path
              then handle_remove_link role req w
         else if method = ''GET'' \<and> path = ''/search''
              then (Returned (json (P_search (search_tags (case r_q req of None \<Rightarrow> []
                                                          | Some q \<Rightarrow> q) w)) 200), w)
         else if method = ''GET'' \<and> path = ''/list''
              then (Returned (json (P_list (list_tags w)) 200), w)
         else (Returned (error ''Not found'' 404), w))"

subsection \<open>The command-line client: credential and cache\<close>

record Config =
  api_url :: string
  admin_key :: "string option"
  agent_key :: "string option"

text \<open>
  \<open>getKey\<close> of the cache-aware client:
  \<open>process.env.PXD_KEY || config.admin_key || config.agent_key || ''\<close>. The first
  argument is the environment variable (\<open>None\<close> when unset).
\<close>

definition getKey :: "string option \<Rightarrow> Config \<Rightarrow> string" where
  "getKey env_key config =
     (if truthy_str env_key then the env_key
      else if truthy_str (admin_key config) then the (admin_key config)
      else if truthy_str (agent_key config) then the (agent_key config)
      else [])"

text \<open>
  \<open>getKey\<close> of \<open>src/cli/pxd.ts\<close>:
  \<open>config.admin_key || config.agent_key || process.env.PXD_KEY || ''\<close>, under the
  comment "Prefer admin key, fall back to agent key, then env".
\<close>

definition getKey_src_cli :: "string option \<Rightarrow> Config \<Rightarrow> string" where
  "getKey_src_cli env_key config =
     (if truthy_str (admin_key config) then the (admin_key config)
      else if truthy_str (agent_key config) then the (agent_key config)
      else if truthy_str env_key then the env_key
      else [])"

text \<open>\<open>CachedTag\<close>: \<open>meta\<close> and \<open>links\<close> are optional.\<close>

record CachedTag =
  c_id :: string
  c_name :: string
  c_meta :: "jsonval option"
  c_links :: "(string \<times> string) list option"
  c_created_at :: int
  c_updated_at :: int

text \<open>
  What the client writes into \<open>cache.tags\<close>: a tag, or the object
  \<open>{links, updated_at}\<close> that \<open>cmdLink\<close> leaves behind when it is given the id
  \<open>__proto__\<close> (see \<open>cacheGet\<close> and \<open>cmdLink\<close> below). Such an object has no \<open>id\<close>:
  as a property key, \<open>undefined\<close> is the string \<open>undefined\<close>.
\<close>

datatype entry = Tag CachedTag | Stray "(string \<times> string) list" int

fun entry_key :: "entry \<Rightarrow> string" where
  "entry_key (Tag t) = c_id t"
| "entry_key (Stray ls up) = ''undefined''"

text \<open>The own properties of \<open>cache.tags\<close>, and \<open>cache.updated_at\<close>.\<close>

record Cache =
  cache_tags :: "string \<rightharpoonup> entry"
  cache_updated_at :: int

text \<open>
  The cache file: \<open>None\<close> when it does not exist or does not parse, the two cases in
  which \<open>loadCache\<close> returns the empty cache.
\<close>

type_synonym cache_file = "Cache option"

definition loadCache :: "cache_file \<Rightarrow> Cache" where
  "loadCache f =
     (case f of
        None \<Rightarrow> \<lparr>cache_tags = Map.empty, cache_updated_at = 0\<rparr>
      | Some c \<Rightarrow> c)"

definition saveCache :: "int \<Rightarrow> Cache \<Rightarrow> cache_file" where
  "saveCache now cache = Some (cache\<lparr>cache_updated_at := now\<rparr>)"

text \<open>
  \<open>cache.tags\<close> is a plain object, so reading and writing a property goes through
  \<open>Object.prototype\<close>. These are its property names in the JavaScript runtime: eleven
  built-in functions and the accessor \<open>__proto__\<close>.
\<close>

definition prototype_functions :: "string list" where
  "prototype_functions =
     [''constructor'', ''__defineGetter__'', ''__defineSetter__'', ''hasOwnProperty'',
      ''__lookupGetter__'', ''__lookupSetter__'', ''isPrototypeOf'',
      ''propertyIsEnumerable'', ''toString'', ''valueOf'', ''toLocaleString'']"

text \<open>
  The value of \<open>cache.tags[id]\<close>: an own property if there is one; otherwise, for an
  inherited name, a built-in function or (for \<open>__proto__\<close>) \<open>Object.prototype\<close> itself,
  both truthy; otherwise \<open>undefined\<close>.
\<close>

datatype lookup = Own entry | Inherited_function | Inherited_prototype | Undefined

definition cacheGet :: "string \<Rightarrow> cache_file \<Rightarrow> lookup" where
  "cacheGet i f =
     (case cache_tags (loadCache f) i of
        Some e \<Rightarrow> Own e
      | None \<Rightarrow>
          if i = ''__proto__'' then Inherited_prototype
          else if i \<in> set prototype_functions then Inherited_function
          else Undefined)"

text \<open>
  \<open>cacheSet\<close>: \<open>cache.tags[tag.id] = tag\<close>, then \<open>saveCache\<close>. The assignment creates or
  replaces an own property, except under the key \<open>__proto__\<close> when the object has no own
  property of that name: then the inherited setter makes \<open>tag\<close> the prototype of
  \<open>cache.tags\<close>, and \<open>JSON.stringify\<close>, which writes own properties only, writes the
  tags as they were.
\<close>

definition cacheSet :: "int \<Rightarrow> entry \<Rightarrow> cache_file \<Rightarrow> cache_file" where
  "cacheSet now tag f =
     saveCache now
       (if entry_key tag = ''__proto__'' \<and> cache_tags (loadCache f) ''__proto__'' = None
        then loadCache f
        else (loadCache f)\<lparr>cache_tags := (cache_tags (loadCache f))(entry_key tag \<mapsto> tag)\<rparr>)"

text \<open>
  What \<open>api\<close> returned: \<open>res.ok\<close>, \<open>res.status\<close>, the \<open>error\<close> field of the data if it
  has one, and the data as the command casts it.
\<close>

record 'd api_res =
  res_ok :: bool
  res_status :: nat
  res_error :: "string option"
  res_value :: 'd

text \<open>The data of a \<open>POST /id\<close> answer: \<open>{id, name, meta, created_at}\<close>.\<close>

record created =
  n_id :: string
  n_name :: string
  n_meta :: "jsonval option"
  n_created_at :: int

text \<open>
  A command either ends with a message on the error stream and \<open>process.exit(1)\<close>
  (through \<open>err\<close>, or through the \<open>catch\<close> of \<open>main\<close> for an exception), or completes.
\<close>

datatype cli_result = Exit1 string | Done

text \<open>\<open>(res.data as {error?}).error || fallback\<close>.\<close>

definition error_or :: "string option \<Rightarrow> string \<Rightarrow> string" where
  "error_or e fallback = (if truthy_str e then the e else fallback)"

text \<open>
  \<open>formatDate(ts)\<close> is \<open>new Date(ts).toISOString()\<close>, which throws the RangeError
  \<open>Invalid time value\<close> outside the range of \<open>Date\<close> and for \<open>undefined\<close>.
\<close>

definition valid_time :: "int \<Rightarrow> bool" where
  "valid_time ts = (\<bar>ts\<bar> \<le> 8640000000000000)"

text \<open>
  The printing at the end of \<open>cmdShow\<close>. With \<open>--json\<close> it cannot fail. Without, it
  formats \<open>created_at\<close> and \<open>updated_at\<close>; a value that is not a tag has no
  \<open>created_at\<close>.
\<close>

definition show_output :: "bool \<Rightarrow> lookup \<Rightarrow> cli_result" where
  "show_output as_json v =
     (if as_json then Done
      else (case v of
              Own (Tag t) \<Rightarrow>
                if valid_time (c_created_at t) \<and> valid_time (c_updated_at t) then Done
                else Exit1 ''Invalid time value''
            | _ \<Rightarrow> Exit1 ''Invalid time value''))"

text \<open>
  \<open>cmdNew\<close>, \<open>cmdShow\<close> and \<open>cmdLink\<close> of the cache-aware client, after \<open>api\<close> has
  returned \<open>res\<close>; \<open>now\<close> is the clock read by \<open>saveCache\<close>, \<open>now_link\<close> the one read by
  \<open>cmdLink\<close> itself, \<open>as_json\<close> is \<open>opts.json\<close>. What is printed on success is left
  out.
\<close>

definition cmdNew :: "int \<Rightarrow> created api_res \<Rightarrow> cache_file \<Rightarrow> cli_result \<times> cache_file" where
  "cmdNew now res f =
     (if \<not> res_ok res then (Exit1 (error_or (res_error res) ''Unknown error''), f)
      else
        let tag = res_value res
        in (Done,
            cacheSet now (Tag \<lparr>c_id = n_id tag, c_name = n_name tag, c_meta = n_meta tag,
                               c_links = Some [], c_created_at = n_created_at tag,
                               c_updated_at = n_created_at tag\<rparr>) f))"

definition cmdShow ::
  "bool \<Rightarrow> int \<Rightarrow> string \<Rightarrow> CachedTag api_res \<Rightarrow> cache_file \<Rightarrow> cli_result \<times> cache_file" where
  "cmdShow as_json now i res f =
     (let tag = cacheGet i f
      in if res_ok res
         then (show_output as_json (Own (Tag (res_value res))),
               cacheSet now (Tag (res_value res)) f)
         else if tag = Undefined then (Exit1 (error_or (res_error res) ''Not found''), f)
         else (show_output as_json tag, f))"

text \<open>
  \<open>cmdLink\<close> continues on whatever truthy value \<open>cacheGet\<close> gave it: it appends to its
  \<open>links\<close> (an empty list if it has none), sets its \<open>updated_at\<close> and calls \<open>cacheSet\<close>.
  A built-in function has no \<open>id\<close> and is stored under the key \<open>undefined\<close>, where
  \<open>JSON.stringify\<close> omits it, as it omits every function. \<open>Object.prototype\<close> has no
  \<open>id\<close> either and is stored under the same key; it is written with the two properties
  \<open>cmdLink\<close> gave it.
\<close>

fun add_link :: "entry \<Rightarrow> string \<Rightarrow> string \<Rightarrow> int \<Rightarrow> entry" where
  "add_link (Tag t) ty u now_link =
     Tag (t\<lparr>c_links := Some ((case c_links t of None \<Rightarrow> [] | Some ls \<Rightarrow> ls) @ [(ty, u)]),
            c_updated_at := now_link\<rparr>)"
| "add_link (Stray ls up) ty u now_link = Stray (ls @ [(ty, u)]) now_link"

definition cmdLink ::
  "int \<Rightarrow> int \<Rightarrow> string \<Rightarrow> string \<Rightarrow> string \<Rightarrow> unit api_res \<Rightarrow> cache_file
     \<Rightarrow> cli_result \<times> cache_file" where
  "cmdLink now now_link i ty u res f =
     (if \<not> res_ok res then (Exit1 (error_or (res_error res) ''Unknown error''), f)
      else
        (case cacheGet i f of
           Undefined \<Rightarrow> (Done, f)
         | Own tag \<Rightarrow> (Done, cacheSet now (add_link tag ty u now_link) f)
         | Inherited_function \<Rightarrow>
             (Done,
              saveCache now
                ((loadCache f)\<lparr>cache_tags := (cache_tags (loadCache f))(''undefined'' := None)\<rparr>))
         | Inherited_prototype \<Rightarrow> (Done, cacheSet now (Stray [(ty, u)] now_link) f)))"

section \<open>Properties\<close>

subsection \<open>The ID generator\<close>

lemma length_CHARSET: "length CHARSET = 32"
  by (simp add: CHARSET_def)

lemma CHARSET_distinct: "distinct CHARSET"
  by (simp add: CHARSET_def)

lemma CHARSET_letters_digits:
  "CHARSET = filter (\<lambda>c. c \<noteq> CHR ''l'' \<and> c \<noteq> CHR ''o'') ''abcdefghijklmnopqrstuvwxyz''
               @ ''23456789''"
  by (simp add: CHARSET_def)

lemma pick_in_range:
  assumes "0 \<le> r" "r < 1"
  shows "\<exists>c. pick r = [c] \<and> c \<in> set CHARSET"
proof -
  let ?i = "\<lfloor>r * real (length CHARSET)\<rfloor>"
  have lo: "0 \<le> ?i" using assms by (simp add: length_CHARSET)
  have "r * 32 < 32" using assms by simp
  then have hi: "?i < 32" by (simp add: length_CHARSET floor_less_iff)
  have "nat ?i < length CHARSET" using lo hi unfolding length_CHARSET by linarith
  then have "CHARSET ! nat ?i \<in> set CHARSET" by (rule nth_mem)
  moreover have "pick r = [CHARSET ! nat ?i]"
    using lo hi by (simp add: pick_def Let_def length_CHARSET)
  ultimately show ?thesis by blast
qed

lemma concat_singletons:
  assumes "\<forall>x \<in> set xs. \<exists>c. f x = [c] \<and> c \<in> A"
  shows "length (concat (map f xs)) = length xs \<and> set (concat (map f xs)) \<subseteq> A"
  using assms by (induction xs) auto

text \<open>
  C2, as the code has it. When every draw lies in \<open>[0, 1)\<close>, as \<open>Math.random()\<close>
  guarantees, the generated id has 9 characters: the prefix \<open>px\<close> and 7 characters of
  \<open>CHARSET\<close>. \<open>CHARSET\<close> is the 32 distinct symbols \<open>a-z\<close> without \<open>l\<close> and \<open>o\<close>,
  followed by \<open>2-9\<close>; the letter \<open>i\<close> belongs to it.
\<close>

theorem generateId_format:
  assumes "\<forall>k<7. 0 \<le> rnd (pos + k) \<and> rnd (pos + k) < 1"
  shows "length (generateId rnd pos) = 9 \<and>
         take 2 (generateId rnd pos) = ''px'' \<and>
         length (drop 2 (generateId rnd pos)) = 7 \<and>
         set (drop 2 (generateId rnd pos)) \<subseteq> set CHARSET \<and>
         CHARSET = filter (\<lambda>c. c \<noteq> CHR ''l'' \<and> c \<noteq> CHR ''o'') ''abcdefghijklmnopqrstuvwxyz''
                     @ ''23456789'' \<and>
         card (set CHARSET) = 32"
proof -
  have "\<forall>k \<in> set [0..<7]. \<exists>c. pick (rnd (pos + k)) = [c] \<and> c \<in> set CHARSET"
    using assms pick_in_range by simp
  from concat_singletons [OF this]
  have "length (concat (map (\<lambda>k. pick (rnd (pos + k))) [0..<7])) = 7"
    and "set (concat (map (\<lambda>k. pick (rnd (pos + k))) [0..<7])) \<subseteq> set CHARSET"
    by simp_all
  moreover have "card (set CHARSET) = 32"
    using CHARSET_distinct by (simp add: distinct_card length_CHARSET)
  ultimately show ?thesis
    using CHARSET_letters_digits by (simp add: generateId_def)
qed

text \<open>The theorem at the constant draw \<open>1/4\<close>, which selects index 8 seven times.\<close>

theorem generateId_format_witness:
  "(0::real) \<le> 1/4 \<and> (1/4::real) < 1 \<and>
   generateId (\<lambda>_. 1/4) 0 = ''pxiiiiiii'' \<and>
   length (generateId (\<lambda>_. 1/4) 0) = 9 \<and>
   take 2 (generateId (\<lambda>_. 1/4) 0) = ''px'' \<and>
   set (drop 2 (generateId (\<lambda>_. 1/4) 0)) \<subseteq> set CHARSET"
proof -
  have h: "\<forall>k<7::nat. (0::real) \<le> 1/4 \<and> (1/4::real) < 1" by simp
  have e: "generateId (\<lambda>_. 1/4) 0 = ''pxiiiiiii''"
    by (simp add: generateId_def pick_def CHARSET_def upt_rec)
  from generateId_format [of "\<lambda>_. 1/4" 0, OF h] e show ?thesis by simp
qed

text \<open>
  C2 as stated excludes \<open>i\<close> from the alphabet. The draw \<open>1/4\<close> is a legal value of
  \<open>Math.random()\<close>, and the id it gives has a suffix character outside
  \<open>{a-z except i,l,o} \<union> {2-9}\<close>.
\<close>

theorem generateId_alphabet_counterexample:
  "(0::real) \<le> 1/4 \<and> (1/4::real) < 1 \<and>
   \<not> set (drop 2 (generateId (\<lambda>_. 1/4) 0))
        \<subseteq> (set ''abcdefghijklmnopqrstuvwxyz'' - {CHR ''i'', CHR ''l'', CHR ''o''})
            \<union> set ''23456789''"
  by (simp add: generateId_def pick_def CHARSET_def upt_rec)

subsection \<open>The client's credential\<close>

text \<open>
  C9, as the code has it. The cache-aware client sends the environment variable
  whenever it is set to a non-empty string, whatever the configuration file holds. The
  client of \<open>src/cli/pxd.ts\<close> orders the sources the other way round: a non-empty
  \<open>admin_key\<close> of the configuration is sent whatever the environment holds, and a
  non-empty \<open>agent_key\<close> when there is no \<open>admin_key\<close>.
\<close>

theorem getKey_precedence:
  "(\<forall>e. env_key = Some e \<and> e \<noteq> [] \<longrightarrow> getKey env_key config = e) \<and>
   (\<forall>a. admin_key config = Some a \<and> a \<noteq> [] \<longrightarrow> getKey_src_cli env_key config = a) \<and>
   (\<forall>g. \<not> truthy_str (admin_key config) \<and> agent_key config = Some g \<and> g \<noteq> []
        \<longrightarrow> getKey_src_cli env_key config = g)"
  by (simp add: getKey_def getKey_src_cli_def)

text \<open>Both clients with all three sources set, and with \<open>admin_key\<close> missing.\<close>

theorem getKey_precedence_witness:
  "getKey (Some ''envkey'') \<lparr>api_url = ''https://pxd.example'', admin_key = Some ''adminkey'',
                              agent_key = Some ''agentkey''\<rparr> = ''envkey'' \<and>
   getKey_src_cli (Some ''envkey'') \<lparr>api_url = ''https://pxd.example'', admin_key = Some ''adminkey'',
                              agent_key = Some ''agentkey''\<rparr> = ''adminkey'' \<and>
   getKey_src_cli (Some ''envkey'') \<lparr>api_url = ''https://pxd.example'', admin_key = None,
                              agent_key = Some ''agentkey''\<rparr> = ''agentkey''"
  using getKey_precedence [of "Some ''envkey''"
          "\<lparr>api_url = ''https://pxd.example'', admin_key = Some ''adminkey'',
            agent_key = Some ''agentkey''\<rparr>"]
        getKey_precedence [of "Some ''envkey''"
          "\<lparr>api_url = ''https://pxd.example'', admin_key = None,
            agent_key = Some ''agentkey''\<rparr>"]
  by simp

text \<open>
  C9 as stated fails for \<open>getKey\<close> of \<open>src/cli/pxd.ts\<close>: with the environment variable
  and \<open>admin_key\<close> both set, the configuration key is the one used.
\<close>

theorem getKey_env_counterexample:
  "getKey_src_cli (Some ''envkey'')
     \<lparr>api_url = ''https://pxd.example'', admin_key = Some ''adminkey'', agent_key = None\<rparr>
   \<noteq> ''envkey''"
  by (simp add: getKey_src_cli_def)

subsection \<open>The client's cache\<close>

lemma px_not_inherited:
  "take 2 i = ''px'' \<Longrightarrow> i \<noteq> ''__proto__'' \<and> i \<notin> set prototype_functions"
  by (auto simp: prototype_functions_def)

lemma cacheGet_cacheSet:
  "entry_key e \<noteq> ''__proto__'' \<Longrightarrow> cacheGet (entry_key e) (cacheSet now e f) = Own e"
  by (simp add: cacheGet_def cacheSet_def saveCache_def loadCache_def split: option.splits)

text \<open>
  C8, as the code has it. After a successful create the cache holds the new tag under
  its id, with no links and \<open>updated_at\<close> equal to \<open>created_at\<close>; after a successful
  single-tag read it holds the tag as the server returned it; both replace whatever entry
  was there. After a successful link-add, a tag that the cache holds for the id gets the
  link appended and its \<open>updated_at\<close> set to the client's clock, and is written back
  under its own id; when the lookup of the id gives \<open>undefined\<close>, the cache file is left
  as it was. The three writes are stated for ids other than \<open>__proto__\<close>, under which
  \<open>cacheSet\<close> cannot create an entry. For an id that starts with \<open>px\<close>, as every
  generated id does, the id is not \<open>__proto__\<close> and the lookup gives \<open>undefined\<close>
  exactly when the cache has no entry for it.
\<close>

theorem cache_write_through:
  "(res_ok rn \<and> n_id (res_value rn) \<noteq> ''__proto__'' \<longrightarrow>
      cacheGet (n_id (res_value rn)) (snd (cmdNew now rn f)) =
        Own (Tag \<lparr>c_id = n_id (res_value rn), c_name = n_name (res_value rn),
                   c_meta = n_meta (res_value rn), c_links = Some [],
                   c_created_at = n_created_at (res_value rn),
                   c_updated_at = n_created_at (res_value rn)\<rparr>)) \<and>
   (res_ok rs \<and> c_id (res_value rs) \<noteq> ''__proto__'' \<longrightarrow>
      cacheGet (c_id (res_value rs)) (snd (cmdShow as_json now i rs f)) =
        Own (Tag (res_value rs))) \<and>
   (\<forall>tag. res_ok rl \<and> cacheGet i f = Own (Tag tag) \<and> c_id tag \<noteq> ''__proto__'' \<longrightarrow>
      cacheGet (c_id tag) (snd (cmdLink now now_link i ty u rl f)) =
        Own (Tag (tag\<lparr>c_links := Some ((case c_links tag of None \<Rightarrow> [] | Some ls \<Rightarrow> ls)
                                         @ [(ty, u)]),
                       c_updated_at := now_link\<rparr>))) \<and>
   (res_ok rl \<and> cacheGet i f = Undefined \<longrightarrow> snd (cmdLink now now_link i ty u rl f) = f) \<and>
   (take 2 i = ''px'' \<longrightarrow>
      i \<noteq> ''__proto__'' \<and>
      (cacheGet i f = Undefined) = (cache_tags (loadCache f) i = None))"
proof (intro conjI impI allI)
  assume "res_ok rn \<and> n_id (res_value rn) \<noteq> ''__proto__''"
  then show "cacheGet (n_id (res_value rn)) (snd (cmdNew now rn f)) =
        Own (Tag \<lparr>c_id = n_id (res_value rn), c_name = n_name (res_value rn),
                   c_meta = n_meta (res_value rn), c_links = Some [],
                   c_created_at = n_created_at (res_value rn),
                   c_updated_at = n_created_at (res_value rn)\<rparr>)"
    using cacheGet_cacheSet
            [of "Tag \<lparr>c_id = n_id (res_value rn), c_name = n_name (res_value rn),
                   c_meta = n_meta (res_value rn), c_links = Some [],
                   c_created_at = n_created_at (res_value rn),
                   c_updated_at = n_created_at (res_value rn)\<rparr>" now f]
    by (simp add: cmdNew_def Let_def)
next
  assume "res_ok rs \<and> c_id (res_value rs) \<noteq> ''__proto__''"
  then show "cacheGet (c_id (res_value rs)) (snd (cmdShow as_json now i rs f)) =
        Own (Tag (res_value rs))"
    using cacheGet_cacheSet [of "Tag (res_value rs)" now f]
    by (simp add: cmdShow_def Let_def)
next
  fix tag
  assume "res_ok rl \<and> cacheGet i f = Own (Tag tag) \<and> c_id tag \<noteq> ''__proto__''"
  then show "cacheGet (c_id tag) (snd (cmdLink now now_link i ty u rl f)) =
        Own (Tag (tag\<lparr>c_links := Some ((case c_links tag of None \<Rightarrow> [] | Some ls \<Rightarrow> ls)
                                         @ [(ty, u)]),
                       c_updated_at := now_link\<rparr>))"
    using cacheGet_cacheSet [of "add_link (Tag tag) ty u now_link" now f]
    by (simp add: cmdLink_def)
next
  assume "res_ok rl \<and> cacheGet i f = Undefined"
  then show "snd (cmdLink now now_link i ty u rl f) = f"
    by (simp add: cmdLink_def)
next
  assume "take 2 i = ''px''"
  then show "i \<noteq> ''__proto__''" using px_not_inherited by blast
next
  assume "take 2 i = ''px''"
  then show "(cacheGet i f = Undefined) = (cache_tags (loadCache f) i = None)"
    using px_not_inherited [of i] by (simp add: cacheGet_def split: option.splits)
qed

text \<open>
  Create and read on a missing cache file, link-add on a cache that holds the tag, and
  link-add on a missing cache file.
\<close>

theorem cache_write_through_witness:
  "cacheGet ''pxabc2345''
     (snd (cmdNew 5 \<lparr>res_ok = True, res_status = 201, res_error = None,
                     res_value = \<lparr>n_id = ''pxabc2345'', n_name = ''Echo project'',
                                  n_meta = Some (JObj []), n_created_at = 4\<rparr>\<rparr> None))
     = Own (Tag \<lparr>c_id = ''pxabc2345'', c_name = ''Echo project'', c_meta = Some (JObj []),
                c_links = Some [], c_created_at = 4, c_updated_at = 4\<rparr>) \<and>
   cacheGet ''pxabc2345''
     (snd (cmdShow False 5 ''pxabc2345''
             \<lparr>res_ok = True, res_status = 200, res_error = None,
              res_value = \<lparr>c_id = ''pxabc2345'', c_name = ''Echo project'', c_meta = Some (JObj []),
                           c_links = Some [], c_created_at = 4, c_updated_at = 4\<rparr>\<rparr> None))
     = Own (Tag \<lparr>c_id = ''pxabc2345'', c_name = ''Echo project'', c_meta = Some (JObj []),
                c_links = Some [], c_created_at = 4, c_updated_at = 4\<rparr>) \<and>
   cacheGet ''pxabc2345''
     (snd (cmdLink 7 6 ''pxabc2345'' ''github'' ''https://github.com/x/echo''
             \<lparr>res_ok = True, res_status = 201, res_error = None, res_value = ()\<rparr>
             (cacheSet 5 (Tag \<lparr>c_id = ''pxabc2345'', c_name = ''Echo project'',
                                c_meta = Some (JObj []), c_links = Some [], c_created_at = 4,
                                c_updated_at = 4\<rparr>) None)))
     = Own (Tag \<lparr>c_id = ''pxabc2345'', c_name = ''Echo project'', c_meta = Some (JObj []),
                c_links = Some [(''github'', ''https://github.com/x/echo'')],
                c_created_at = 4, c_updated_at = 6\<rparr>) \<and>
   cacheGet ''pxabc2345'' None = Undefined \<and>
   snd (cmdLink 5 6 ''pxabc2345'' ''github'' ''https://github.com/x/echo''
          \<lparr>res_ok = True, res_status = 201, res_error = None, res_value = ()\<rparr> None) = None"
proof -
  let ?t = "\<lparr>c_id = ''pxabc2345'', c_name = ''Echo project'', c_meta = Some (JObj []),
             c_links = Some [], c_created_at = 4, c_updated_at = 4\<rparr>"
  let ?rn = "\<lparr>res_ok = True, res_status = 201, res_error = None,
               res_value = \<lparr>n_id = ''pxabc2345'', n_name = ''Echo project'',
                            n_meta = Some (JObj []), n_created_at = 4\<rparr>\<rparr>"
  let ?rs = "\<lparr>res_ok = True, res_status = 200, res_error = None, res_value = ?t\<rparr>"
  let ?rl = "\<lparr>res_ok = True, res_status = 201, res_error = None, res_value = ()\<rparr>"
  let ?f = "cacheSet 5 (Tag ?t) None"
  have u: "cacheGet ''pxabc2345'' None = Undefined"
    by (simp add: cacheGet_def loadCache_def prototype_functions_def)
  have c: "cacheGet ''pxabc2345'' ?f = Own (Tag ?t)"
    using cacheGet_cacheSet [of "Tag ?t" 5 None] by simp
  from cache_write_through
         [of ?rn 5 None ?rs False "''pxabc2345''" ?rl 6 "''github''"
             "''https://github.com/x/echo''"]
  have a: "cacheGet ''pxabc2345'' (snd (cmdNew 5 ?rn None)) = Own (Tag ?t)"
    and b: "cacheGet ''pxabc2345'' (snd (cmdShow False 5 ''pxabc2345'' ?rs None)) = Own (Tag ?t)"
    and d: "snd (cmdLink 5 6 ''pxabc2345'' ''github'' ''https://github.com/x/echo'' ?rl None)
              = None"
    using u by simp_all
  from cache_write_through
         [of ?rn 7 ?f ?rs False "''pxabc2345''" ?rl 6 "''github''"
             "''https://github.com/x/echo''"] c
  have e: "cacheGet ''pxabc2345''
             (snd (cmdLink 7 6 ''pxabc2345'' ''github'' ''https://github.com/x/echo'' ?rl ?f))
           = Own (Tag (?t\<lparr>c_links := Some [(''github'', ''https://github.com/x/echo'')],
                           c_updated_at := 6\<rparr>))"
    by simp
  from a b d e u show ?thesis by simp
qed

text \<open>
  C8 as stated fails for link-add: the server accepts the link, the cache has no entry
  for the tag, and afterwards it still has none.
\<close>

theorem cmdLink_uncached_counterexample:
  "res_ok \<lparr>res_ok = True, res_status = 201, res_error = None, res_value = ()\<rparr> \<and>
   cacheGet ''pxabc2345''
     (snd (cmdLink 2 1 ''pxabc2345'' ''github'' ''https://github.com/x/echo''
             \<lparr>res_ok = True, res_status = 201, res_error = None, res_value = ()\<rparr> None))
     = Undefined"
  by (simp add: cmdLink_def cacheGet_def loadCache_def prototype_functions_def)

text \<open>
  Link-add under the two kinds of inherited name, on a missing cache file: the file is
  written in both cases, without an entry for \<open>constructor\<close>, and with the stray object
  under \<open>undefined\<close> for \<open>__proto__\<close>.
\<close>

lemma cmdLink_inherited_function_example:
  "cmdLink 2 1 ''constructor'' ''github'' ''https://github.com/x/echo''
     \<lparr>res_ok = True, res_status = 201, res_error = None, res_value = ()\<rparr> None
   = (Done, Some \<lparr>cache_tags = Map.empty, cache_updated_at = 2\<rparr>)"
  by (simp add: cmdLink_def cacheGet_def loadCache_def prototype_functions_def saveCache_def)

lemma cmdLink_inherited_prototype_example:
  "cmdLink 2 1 ''__proto__'' ''github'' ''https://github.com/x/echo''
     \<lparr>res_ok = True, res_status = 201, res_error = None, res_value = ()\<rparr> None
   = (Done, Some \<lparr>cache_tags =
                      [''undefined'' \<mapsto> Stray [(''github'', ''https://github.com/x/echo'')] 1],
                    cache_updated_at = 2\<rparr>)"
  by (simp add: cmdLink_def cacheGet_def loadCache_def prototype_functions_def saveCache_def
        cacheSet_def)

subsection \<open>The authorization gate\<close>

lemma match_remove_link_prefix: "match_remove_link path \<Longrightarrow> startsWith ''/id/'' path"
  by (simp add: match_remove_link_def)

lemma handle_create_status:
  "handle_create rnd now req w = (Returned resp, w') \<Longrightarrow> status resp \<in> {400, 500, 201}"
  by (auto simp: handle_create_def error_def json_def Let_def
           split: option.splits if_splits prod.splits)

lemma handle_get_status:
  "handle_get req w = (Returned resp, w') \<Longrightarrow> status resp \<in> {404, 200}"
  by (auto simp: handle_get_def error_def json_def Let_def split: option.splits)

lemma handle_add_link_status:
  "handle_add_link now req w = (Returned resp, w') \<Longrightarrow> status resp \<in> {400, 404, 201}"
  by (auto simp: handle_add_link_def error_def json_def split: option.splits if_splits)

lemma fetch_none:
  "r_path req \<noteq> ''/health'' \<Longrightarrow> getRole req env = none \<Longrightarrow>
   fetch env rnd now req w = (Returned (error ''Unauthorized'' 401), w)"
  by (simp add: fetch_def)

lemma getRole_no_key: "r_key req = None \<Longrightarrow> getRole req env = none"
  by (simp add: getRole_def)

lemma fetch_agent_admin_only:
  assumes "getRole req env = agent" "r_method req = ''PUT'' \<or> r_method req = ''DELETE''"
    "startsWith ''/id/'' (r_path req)"
  shows "fetch env rnd now req w = (Returned (error ''Admin required'' 403), w)"
proof -
  have "r_path req \<noteq> ''/health''" "r_path req \<noteq> ''/id''"
    using assms(3) by (auto simp: startsWith_def)
  then show ?thesis
    using assms by (auto simp: fetch_def handle_update_def handle_delete_def)
qed

lemma fetch_agent_open:
  assumes "getRole req env = agent"
    and "r_method req = ''POST'' \<and> r_path req = ''/id'' \<or>
         r_method req = ''GET'' \<and> startsWith ''/id/'' (r_path req) \<or>
         r_method req = ''POST'' \<and> match_add_link (r_path req) \<or>
         r_method req = ''GET'' \<and> r_path req = ''/search'' \<or>
         r_method req = ''GET'' \<and> r_path req = ''/list''"
    and "fetch env rnd now req w = (Returned resp, w')"
  shows "status resp \<noteq> 401 \<and> status resp \<noteq> 403"
proof -
  have nh: "r_path req \<noteq> ''/health''"
    using assms(2) by (auto simp: startsWith_def match_add_link_def)
  consider (create) "r_method req = ''POST''" "r_path req = ''/id''"
    | (get) "r_method req = ''GET''" "startsWith ''/id/'' (r_path req)"
    | (link) "r_method req = ''POST''" "match_add_link (r_path req)"
    | (search) "r_method req = ''GET''" "r_path req = ''/search''"
    | (list) "r_method req = ''GET''" "r_path req = ''/list''"
    using assms(2) by blast
  then show ?thesis
  proof cases
    case create
    then have "handle_create rnd now req w = (Returned resp, w')"
      using assms(1,3) nh by (simp add: fetch_def)
    from handle_create_status [OF this] show ?thesis by auto
  next
    case get
    then have "handle_get req w = (Returned resp, w')"
      using assms(1,3) nh by (auto simp: fetch_def startsWith_def)
    from handle_get_status [OF this] show ?thesis by auto
  next
    case link
    then have "r_path req \<noteq> ''/id''" by (auto simp: match_add_link_def startsWith_def)
    then have "handle_add_link now req w = (Returned resp, w')"
      using link assms(1,3) nh by (simp add: fetch_def)
    from handle_add_link_status [OF this] show ?thesis by auto
  next
    case search
    then show ?thesis
      using assms(1,3) nh by (auto simp: fetch_def startsWith_def json_def)
  next
    case list
    then show ?thesis
      using assms(1,3) nh by (auto simp: fetch_def startsWith_def json_def)
  qed
qed

text \<open>
  C1, as the code has it. On every path but \<open>/health\<close>: a request whose role is
  \<open>none\<close> gets \<open>Unauthorized\<close> (401) and changes nothing, and that is the case of a
  request with no credential, with an empty credential, or with a credential that equals
  neither secret; an agent's \<open>PUT\<close> or \<open>DELETE\<close> under \<open>/id/\<close>, which
  covers update, delete and remove-link, gets \<open>Admin required\<close> (403) and changes
  nothing; an agent's create, get, add-link, search or list is never answered with 401 or
  403.
\<close>

theorem authorization_gate:
  assumes "r_path req \<noteq> ''/health''"
  shows
    "(r_key req = None \<longrightarrow>
        fetch env rnd now req w = (Returned (error ''Unauthorized'' 401), w)) \<and>
     (\<forall>k. r_key req = Some k \<and> (k = [] \<or> k \<noteq> PXD_ADMIN_KEY env \<and> k \<noteq> PXD_AGENT_KEY env)
          \<longrightarrow> fetch env rnd now req w = (Returned (error ''Unauthorized'' 401), w)) \<and>
     (getRole req env = none \<longrightarrow>
        fetch env rnd now req w = (Returned (error ''Unauthorized'' 401), w)) \<and>
     (getRole req env = agent \<and>
      (r_method req = ''PUT'' \<and> startsWith ''/id/'' (r_path req) \<or>
       r_method req = ''DELETE'' \<and> startsWith ''/id/'' (r_path req) \<or>
       r_method req = ''DELETE'' \<and> match_remove_link (r_path req)) \<longrightarrow>
        fetch env rnd now req w = (Returned (error ''Admin required'' 403), w)) \<and>
     (getRole req env = agent \<and>
      (r_method req = ''POST'' \<and> r_path req = ''/id'' \<or>
       r_method req = ''GET'' \<and> startsWith ''/id/'' (r_path req) \<or>
       r_method req = ''POST'' \<and> match_add_link (r_path req) \<or>
       r_method req = ''GET'' \<and> r_path req = ''/search'' \<or>
       r_method req = ''GET'' \<and> r_path req = ''/list'') \<longrightarrow>
        (\<forall>resp w'. fetch env rnd now req w = (Returned resp, w') \<longrightarrow>
           status resp \<noteq> 401 \<and> status resp \<noteq> 403))"
proof (intro conjI impI allI)
  assume "r_key req = None"
  then show "fetch env rnd now req w = (Returned (error ''Unauthorized'' 401), w)"
    using assms by (simp add: fetch_none getRole_no_key)
next
  fix k
  assume "r_key req = Some k \<and> (k = [] \<or> k \<noteq> PXD_ADMIN_KEY env \<and> k \<noteq> PXD_AGENT_KEY env)"
  then have "getRole req env = none"
    by (auto simp: getRole_def)
  then show "fetch env rnd now req w = (Returned (error ''Unauthorized'' 401), w)"
    using assms by (simp add: fetch_none)
next
  assume "getRole req env = none"
  then show "fetch env rnd now req w = (Returned (error ''Unauthorized'' 401), w)"
    using assms by (simp add: fetch_none)
next
  assume "getRole req env = agent \<and>
      (r_method req = ''PUT'' \<and> startsWith ''/id/'' (r_path req) \<or>
       r_method req = ''DELETE'' \<and> startsWith ''/id/'' (r_path req) \<or>
       r_method req = ''DELETE'' \<and> match_remove_link (r_path req))"
  then show "fetch env rnd now req w = (Returned (error ''Admin required'' 403), w)"
    using fetch_agent_admin_only match_remove_link_prefix by blast
next
  fix resp w'
  assume "getRole req env = agent \<and>
      (r_method req = ''POST'' \<and> r_path req = ''/id'' \<or>
       r_method req = ''GET'' \<and> startsWith ''/id/'' (r_path req) \<or>
       r_method req = ''POST'' \<and> match_add_link (r_path req) \<or>
       r_method req = ''GET'' \<and> r_path req = ''/search'' \<or>
       r_method req = ''GET'' \<and> r_path req = ''/list'')"
    and "fetch env rnd now req w = (Returned resp, w')"
  then show "status resp \<noteq> 401" "status resp \<noteq> 403"
    using fetch_agent_open by blast+
qed

text \<open>
  A request without a key on \<open>/list\<close>, an agent's remove-link, and an agent's list.
\<close>

theorem authorization_gate_witness:
  "fetch \<lparr>PXD_ADMIN_KEY = ''adminsecret'', PXD_AGENT_KEY = ''agentsecret''\<rparr> (\<lambda>_. 1/4) 9
     \<lparr>r_method = ''GET'', r_path = ''/list'', r_q = None, r_key = None, r_body = None\<rparr>
     \<lparr>tags = [], links = [], link_seq = 0, draws = 0\<rparr>
   = (Returned (error ''Unauthorized'' 401), \<lparr>tags = [], links = [], link_seq = 0, draws = 0\<rparr>) \<and>
   fetch \<lparr>PXD_ADMIN_KEY = ''adminsecret'', PXD_AGENT_KEY = ''agentsecret''\<rparr> (\<lambda>_. 1/4) 9
     \<lparr>r_method = ''DELETE'', r_path = ''/id/pxabc2345/link/github'', r_q = None,
      r_key = Some ''agentsecret'', r_body = None\<rparr>
     \<lparr>tags = [], links = [], link_seq = 0, draws = 0\<rparr>
   = (Returned (error ''Admin required'' 403), \<lparr>tags = [], links = [], link_seq = 0, draws = 0\<rparr>) \<and>
   fetch \<lparr>PXD_ADMIN_KEY = ''adminsecret'', PXD_AGENT_KEY = ''agentsecret''\<rparr> (\<lambda>_. 1/4) 9
     \<lparr>r_method = ''GET'', r_path = ''/list'', r_q = None, r_key = Some ''agentsecret'',
      r_body = None\<rparr>
     \<lparr>tags = [], links = [], link_seq = 0, draws = 0\<rparr>
   = (Returned (json (P_list []) 200), \<lparr>tags = [], links = [], link_seq = 0, draws = 0\<rparr>) \<and>
   status (json (P_list []) 200) \<noteq> 401 \<and> status (json (P_list []) 200) \<noteq> 403"
proof -
  let ?env = "\<lparr>PXD_ADMIN_KEY = ''adminsecret'', PXD_AGENT_KEY = ''agentsecret''\<rparr>"
  let ?w = "\<lparr>tags = [], links = [], link_seq = 0, draws = 0\<rparr>"
  let ?anon = "\<lparr>r_method = ''GET'', r_path = ''/list'', r_q = None, r_key = None,
                r_body = None\<rparr>"
  let ?del = "\<lparr>r_method = ''DELETE'', r_path = ''/id/pxabc2345/link/github'', r_q = None,
               r_key = Some ''agentsecret'', r_body = None\<rparr>"
  let ?list = "\<lparr>r_method = ''GET'', r_path = ''/list'', r_q = None,
                r_key = Some ''agentsecret'', r_body = None\<rparr>"
  have a: "fetch ?env (\<lambda>_. 1/4) 9 ?anon ?w = (Returned (error ''Unauthorized'' 401), ?w)"
    using authorization_gate [of ?anon ?env "\<lambda>_. 1/4" 9 ?w] by simp
  have "getRole ?del ?env = agent" "startsWith ''/id/'' (r_path ?del)"
    by (simp_all add: getRole_def startsWith_def)
  then have d: "fetch ?env (\<lambda>_. 1/4) 9 ?del ?w = (Returned (error ''Admin required'' 403), ?w)"
    using authorization_gate [of ?del ?env "\<lambda>_. 1/4" 9 ?w] by simp
  have l: "fetch ?env (\<lambda>_. 1/4) 9 ?list ?w = (Returned (json (P_list []) 200), ?w)"
    by (simp add: fetch_def getRole_def startsWith_def list_tags_def newest_first_def)
  have "getRole ?list ?env = agent" by (simp add: getRole_def)
  then have "status (json (P_list []) 200) \<noteq> 401 \<and> status (json (P_list []) 200) \<noteq> 403"
    using authorization_gate [of ?list ?env "\<lambda>_. 1/4" 9 ?w] l by simp
  with a d l show ?thesis by simp
qed

text \<open>
  C1 as stated promises \<open>Forbidden\<close> whenever a credential is presented and its role is
  insufficient. A request that presents a key equal to neither secret has role \<open>none\<close>
  and is answered \<open>Unauthorized\<close> (401), not 403.
\<close>

theorem unknown_credential_counterexample:
  "r_key \<lparr>r_method = ''GET'', r_path = ''/list'', r_q = None, r_key = Some ''wrong'',
          r_body = None\<rparr> = Some ''wrong'' \<and>
   r_path \<lparr>r_method = ''GET'', r_path = ''/list'', r_q = None, r_key = Some ''wrong'',
          r_body = None\<rparr> \<noteq> ''/health'' \<and>
   fetch \<lparr>PXD_ADMIN_KEY = ''adminsecret'', PXD_AGENT_KEY = ''agentsecret''\<rparr>
     (\<lambda>_. 1/4) 9
     \<lparr>r_method = ''GET'', r_path = ''/list'', r_q = None, r_key = Some ''wrong'',
      r_body = None\<rparr>
     \<lparr>tags = [], links = [], link_seq = 0, draws = 0\<rparr>
   = (Returned (error ''Unauthorized'' 401), \<lparr>tags = [], links = [], link_seq = 0, draws = 0\<rparr>) \<and>
   status (error ''Unauthorized'' 401) \<noteq> 403"
  by (simp add: fetch_def getRole_def error_def json_def)

subsection \<open>Tag allocation\<close>

text \<open>
  The loop started with \<open>attempts < 10\<close> either stops at the first free candidate,
  after \<open>n\<close> occupied ones with \<open>attempts + n < 10\<close>, or finds every one of the
  \<open>10 - attempts\<close> candidates occupied and ends with \<open>attempts = 10\<close>.
\<close>

lemma alloc_loop_spec:
  "attempts < 10 \<Longrightarrow> alloc_loop rnd ts attempts pos = (i, a, p) \<Longrightarrow>
   (\<exists>n < 10 - attempts.
       (\<forall>k<n. first_tag (generateId rnd (pos + 7 * k)) ts \<noteq> None) \<and>
       first_tag (generateId rnd (pos + 7 * n)) ts = None \<and>
       i = generateId rnd (pos + 7 * n) \<and> a = attempts + n \<and> p = pos + 7 * (n + 1)) \<or>
   ((\<forall>k < 10 - attempts. first_tag (generateId rnd (pos + 7 * k)) ts \<noteq> None) \<and>
    a = 10 \<and> p = pos + 7 * (10 - attempts))"
proof (induction rnd ts attempts pos arbitrary: i a p rule: alloc_loop.induct)
  case (1 rnd ts attempts pos)
  show ?case
  proof (cases "first_tag (generateId rnd pos) ts = None")
    case True
    have "(generateId rnd pos, attempts, pos + 7) = (i, a, p)"
      using "1.prems"(2)
      by (subst (asm) alloc_loop.simps) (simp add: True)
    then have "i = generateId rnd pos" "a = attempts" "p = pos + 7"
      by simp_all
    then have "(\<forall>k<0::nat. first_tag (generateId rnd (pos + 7 * k)) ts \<noteq> None) \<and>
       first_tag (generateId rnd (pos + 7 * 0)) ts = None \<and>
       i = generateId rnd (pos + 7 * 0) \<and> a = attempts + 0 \<and> p = pos + 7 * (0 + 1)"
      using True by simp
    moreover have "0 < 10 - attempts" using "1.prems"(1) by simp
    ultimately show ?thesis by blast
  next
    case occupied: False
    show ?thesis
    proof (cases "Suc attempts < 10")
      case True
      then have rec: "alloc_loop rnd ts (Suc attempts) (pos + 7) = (i, a, p)"
        using "1.prems"(2)
        by (subst (asm) alloc_loop.simps) (simp only: occupied True if_False if_True)
      from "1.IH" [OF occupied True True rec]
      consider (free) n where "n < 10 - Suc attempts"
          "\<forall>k<n. first_tag (generateId rnd (pos + 7 + 7 * k)) ts \<noteq> None"
          "first_tag (generateId rnd (pos + 7 + 7 * n)) ts = None"
          "i = generateId rnd (pos + 7 + 7 * n)" "a = Suc attempts + n" "p = pos + 7 + 7 * (n + 1)"
        | (full) "\<forall>k < 10 - Suc attempts. first_tag (generateId rnd (pos + 7 + 7 * k)) ts \<noteq> None"
          "a = 10" "p = pos + 7 + 7 * (10 - Suc attempts)"
        by blast
      then show ?thesis
      proof cases
        case free
        have all: "\<forall>k<Suc n. first_tag (generateId rnd (pos + 7 * k)) ts \<noteq> None"
        proof (intro allI impI)
          fix k assume "k < Suc n"
          show "first_tag (generateId rnd (pos + 7 * k)) ts \<noteq> None"
          proof (cases k)
            case 0
            then show ?thesis using occupied by simp
          next
            case (Suc j)
            then have "j < n" using \<open>k < Suc n\<close> by simp
            then have "first_tag (generateId rnd (pos + 7 + 7 * j)) ts \<noteq> None"
              using free(2) by blast
            then show ?thesis using Suc by (simp add: add.assoc)
          qed
        qed
        have "Suc n < 10 - attempts" using free(1) by simp
        moreover have "first_tag (generateId rnd (pos + 7 * Suc n)) ts = None"
          using free(3) by (simp add: add.assoc)
        moreover have "i = generateId rnd (pos + 7 * Suc n)"
          using free(4) by (simp add: add.assoc)
        moreover have "a = attempts + Suc n" "p = pos + 7 * (Suc n + 1)"
          using free(5,6) by simp_all
        ultimately show ?thesis using all by blast
      next
        case full
        have "\<forall>k < 10 - attempts. first_tag (generateId rnd (pos + 7 * k)) ts \<noteq> None"
        proof (intro allI impI)
          fix k assume lt: "k < 10 - attempts"
          show "first_tag (generateId rnd (pos + 7 * k)) ts \<noteq> None"
          proof (cases k)
            case 0
            then show ?thesis using occupied by simp
          next
            case (Suc j)
            then have "j < 10 - Suc attempts" using lt by simp
            then have "first_tag (generateId rnd (pos + 7 + 7 * j)) ts \<noteq> None"
              using full(1) by blast
            then show ?thesis using Suc by (simp add: add.assoc)
          qed
        qed
        moreover have "p = pos + 7 * (10 - attempts)" using full(3) True by simp
        ultimately show ?thesis using full(2) by blast
      qed
    next
      case False
      then have nine: "attempts = 9" using "1.prems"(1) by simp
      have "(generateId rnd pos, Suc attempts, pos + 7) = (i, a, p)"
        using "1.prems"(2)
        by (subst (asm) alloc_loop.simps) (simp only: occupied False if_False if_True)
      then have "a = 10" "p = pos + 7"
        using nine by simp_all
      moreover have "\<forall>k < 10 - attempts. first_tag (generateId rnd (pos + 7 * k)) ts \<noteq> None"
        using occupied nine by simp
      ultimately show ?thesis using nine by simp
    qed
  qed
qed

text \<open>
  C3. An authorized \<open>POST /id\<close> with a non-empty name calls the generator (and looks
  the candidate up) \<open>calls\<close> times, \<open>1 \<le> calls \<le> 10\<close>, each call reading 7 draws. It
  answers \<open>Failed to generate unique ID\<close> (500) exactly when each of the 10 candidates
  the random sequence holds is already a tag id, and then both tables are as before.
  Otherwise the candidates before the last are occupied, the last is free, the answer is
  201 with that id, and \<open>tags\<close> has gained exactly one row, with that id and
  \<open>created_at = updated_at = now\<close>; \<open>links\<close> is as before.
\<close>

theorem allocate_bounded:
  assumes role: "getRole req env \<noteq> none"
    and route: "r_method req = ''POST''" "r_path req = ''/id''"
    and body: "r_body req = Some b" "b_name b = Some nm" "nm \<noteq> []"
    and run: "fetch env rnd now req w = (out, w')"
  shows "\<exists>calls. 1 \<le> calls \<and> calls \<le> 10 \<and> draws w' = draws w + 7 * calls \<and>
           (\<forall>k<calls - 1. first_tag (generateId rnd (draws w + 7 * k)) (tags w) \<noteq> None) \<and>
           ((out = Returned (error ''Failed to generate unique ID'' 500)) =
            (\<forall>k<10. first_tag (generateId rnd (draws w + 7 * k)) (tags w) \<noteq> None)) \<and>
           (if \<forall>k<10. first_tag (generateId rnd (draws w + 7 * k)) (tags w) \<noteq> None
            then calls = 10 \<and> tags w' = tags w \<and> links w' = links w \<and> link_seq w' = link_seq w
            else first_tag (generateId rnd (draws w + 7 * (calls - 1))) (tags w) = None \<and>
                 out = Returned (json (P_created (generateId rnd (draws w + 7 * (calls - 1))) nm
                                         (case b_meta b of None \<Rightarrow> JObj []
                                          | Some v \<Rightarrow> if truthy v then v else JObj []) now) 201) \<and>
                 tags w' = tags w @
                   [\<lparr>t_id = generateId rnd (draws w + 7 * (calls - 1)), t_name = nm,
                     t_meta = (case b_meta b of None \<Rightarrow> JObj []
                               | Some v \<Rightarrow> if truthy v then v else JObj []),
                     t_created_at = now, t_updated_at = now\<rparr>] \<and>
                 links w' = links w \<and> link_seq w' = link_seq w)"
proof -
  let ?cand = "\<lambda>k. generateId rnd (draws w + 7 * k)"
  let ?m = "case b_meta b of None \<Rightarrow> JObj [] | Some v \<Rightarrow> if truthy v then v else JObj []"
  have hc: "handle_create rnd now req w = (out, w')"
    using role route run by (simp add: fetch_def)
  obtain i a p where loop: "alloc_loop rnd (tags w) 0 (draws w) = (i, a, p)"
    by (cases "alloc_loop rnd (tags w) 0 (draws w)") auto
  from alloc_loop_spec [OF _ loop]
  consider (free) n where "n < 10" "\<forall>k<n. first_tag (?cand k) (tags w) \<noteq> None"
      "first_tag (?cand n) (tags w) = None" "i = ?cand n" "a = n" "p = draws w + 7 * (n + 1)"
    | (full) "\<forall>k<10. first_tag (?cand k) (tags w) \<noteq> None" "a = 10" "p = draws w + 7 * 10"
    by auto
  then show ?thesis
  proof cases
    case free
    have notall: "\<not> (\<forall>k<10. first_tag (?cand k) (tags w) \<noteq> None)"
      using free(1,3) by blast
    have ins: "insert_tag \<lparr>t_id = i, t_name = nm, t_meta = ?m, t_created_at = now,
                  t_updated_at = now\<rparr> (w\<lparr>draws := p\<rparr>)
               = Some (w\<lparr>draws := p, tags := tags w @ [\<lparr>t_id = i, t_name = nm, t_meta = ?m,
                         t_created_at = now, t_updated_at = now\<rparr>]\<rparr>)"
      using free(3,4) by (simp add: insert_tag_def)
    have res: "out = Returned (json (P_created i nm ?m now) 201)"
      "w' = w\<lparr>draws := p, tags := tags w @ [\<lparr>t_id = i, t_name = nm, t_meta = ?m,
                         t_created_at = now, t_updated_at = now\<rparr>]\<rparr>"
      using hc body loop free(1,5) ins by (simp_all add: handle_create_def Let_def)
    have "out \<noteq> Returned (error ''Failed to generate unique ID'' 500)"
      using res(1) by (simp add: error_def json_def)
    then show ?thesis
      using free res notall
      by (intro exI [of _ "n + 1"]) simp
  next
    case full
    have res: "out = Returned (error ''Failed to generate unique ID'' 500)" "w' = w\<lparr>draws := p\<rparr>"
      using hc body loop full(2) by (simp_all add: handle_create_def Let_def)
    then show ?thesis
      using full by (intro exI [of _ 10]) simp
  qed
qed

text \<open>
  An agent creating a tag in an empty store (one call, seven draws), and in a store where
  the only candidate the random sequence yields is taken (ten calls, then 500).
\<close>

theorem allocate_bounded_witness:
  "getRole \<lparr>r_method = ''POST'', r_path = ''/id'', r_q = None, r_key = Some ''agentsecret'',
            r_body = Some \<lparr>b_name = Some ''Echo project'', b_meta = None, b_type = None,
                            b_url = None\<rparr>\<rparr>
     \<lparr>PXD_ADMIN_KEY = ''adminsecret'', PXD_AGENT_KEY = ''agentsecret''\<rparr> = agent \<and>
   fetch \<lparr>PXD_ADMIN_KEY = ''adminsecret'', PXD_AGENT_KEY = ''agentsecret''\<rparr> (\<lambda>_. 1/4) 9
     \<lparr>r_method = ''POST'', r_path = ''/id'', r_q = None, r_key = Some ''agentsecret'',
      r_body = Some \<lparr>b_name = Some ''Echo project'', b_meta = None, b_type = None,
                      b_url = None\<rparr>\<rparr>
     \<lparr>tags = [], links = [], link_seq = 0, draws = 0\<rparr>
   = (Returned (json (P_created ''pxiiiiiii'' ''Echo project'' (JObj []) 9) 201),
      \<lparr>tags = [\<lparr>t_id = ''pxiiiiiii'', t_name = ''Echo project'', t_meta = JObj [],
                 t_created_at = 9, t_updated_at = 9\<rparr>],
       links = [], link_seq = 0, draws = 7\<rparr>) \<and>
   (\<exists>calls. 1 \<le> calls \<and> calls \<le> 10 \<and> (7::nat) = 0 + 7 * calls) \<and>
   fetch \<lparr>PXD_ADMIN_KEY = ''adminsecret'', PXD_AGENT_KEY = ''agentsecret''\<rparr> (\<lambda>_. 1/4) 9
     \<lparr>r_method = ''POST'', r_path = ''/id'', r_q = None, r_key = Some ''agentsecret'',
      r_body = Some \<lparr>b_name = Some ''Echo project'', b_meta = None, b_type = None,
                      b_url = None\<rparr>\<rparr>
     \<lparr>tags = [\<lparr>t_id = ''pxiiiiiii'', t_name = ''Taken'', t_meta = JObj [],
                t_created_at = 1, t_updated_at = 1\<rparr>],
      links = [], link_seq = 0, draws = 0\<rparr>
   = (Returned (error ''Failed to generate unique ID'' 500),
      \<lparr>tags = [\<lparr>t_id = ''pxiiiiiii'', t_name = ''Taken'', t_meta = JObj [],
                 t_created_at = 1, t_updated_at = 1\<rparr>],
       links = [], link_seq = 0, draws = 70\<rparr>)"
proof -
  let ?env = "\<lparr>PXD_ADMIN_KEY = ''adminsecret'', PXD_AGENT_KEY = ''agentsecret''\<rparr>"
  let ?b = "\<lparr>b_name = Some ''Echo project'', b_meta = None, b_type = None, b_url = None\<rparr>"
  let ?req = "\<lparr>r_method = ''POST'', r_path = ''/id'', r_q = None, r_key = Some ''agentsecret'',
      r_body = Some ?b\<rparr>"
  let ?w = "\<lparr>tags = [], links = [], link_seq = 0, draws = 0\<rparr>"
  let ?w' = "\<lparr>tags = [\<lparr>t_id = ''pxiiiiiii'', t_name = ''Echo project'', t_meta = JObj [],
                 t_created_at = 9, t_updated_at = 9\<rparr>],
       links = [], link_seq = 0, draws = 7\<rparr>"
  let ?out = "Returned (json (P_created ''pxiiiiiii'' ''Echo project'' (JObj []) 9) 201)"
  let ?rnd = "\<lambda>_::nat. 1/4 :: real"
  have gen: "\<And>pos. generateId ?rnd pos = ''pxiiiiiii''"
    by (simp add: generateId_def pick_def CHARSET_def upt_rec)
  have role: "getRole ?req ?env = agent" by (simp add: getRole_def)
  then have gated: "getRole ?req ?env \<noteq> none" by simp
  have run: "fetch ?env ?rnd 9 ?req ?w = (?out, ?w')"
    by (simp add: fetch_def role handle_create_def gen first_tag_def
        alloc_loop.simps insert_tag_def Let_def)
  have "\<exists>calls. 1 \<le> calls \<and> calls \<le> 10 \<and> draws ?w' = draws ?w + 7 * calls"
    using allocate_bounded [OF gated _ _ _ _ _ run, of ?b "''Echo project''"]
    by simp
  then have "\<exists>calls. 1 \<le> calls \<and> calls \<le> 10 \<and> (7::nat) = 0 + 7 * calls" by simp
  moreover have "fetch ?env ?rnd 9 ?req
      \<lparr>tags = [\<lparr>t_id = ''pxiiiiiii'', t_name = ''Taken'', t_meta = JObj [],
                 t_created_at = 1, t_updated_at = 1\<rparr>],
       links = [], link_seq = 0, draws = 0\<rparr>
    = (Returned (error ''Failed to generate unique ID'' 500),
       \<lparr>tags = [\<lparr>t_id = ''pxiiiiiii'', t_name = ''Taken'', t_meta = JObj [],
                  t_created_at = 1, t_updated_at = 1\<rparr>],
        links = [], link_seq = 0, draws = 70\<rparr>)"
    by (simp add: fetch_def role handle_create_def gen first_tag_def
        alloc_loop.simps insert_tag_def Let_def)
  ultimately show ?thesis using role run by blast
qed


text \<open>
  C4, evaluated. \<open>POST /id\<close> with the agent key and the body \<open>{"name": ""}\<close>: the
  field is present, the handler's test \<open>!body.name\<close> is true of the empty string, and
  the answer is \<open>name required\<close> (400); no tag is created. This is the request the
  cache-aware client sends for \<open>pxd new\<close> without a name.
\<close>

theorem create_empty_name_rejected:
  "fetch \<lparr>PXD_ADMIN_KEY = ''adminsecret'', PXD_AGENT_KEY = ''agentsecret''\<rparr> (\<lambda>_. 1/4) 9
     \<lparr>r_method = ''POST'', r_path = ''/id'', r_q = None, r_key = Some ''agentsecret'',
      r_body = Some \<lparr>b_name = Some [], b_meta = None, b_type = None, b_url = None\<rparr>\<rparr>
     \<lparr>tags = [], links = [], link_seq = 0, draws = 0\<rparr>
   = (Returned (error ''name required'' 400), \<lparr>tags = [], links = [], link_seq = 0, draws = 0\<rparr>)"
  by (simp add: fetch_def getRole_def handle_create_def)

subsection \<open>Links\<close>

lemma slash_not_alnum: "\<not> lower_alnum CHR ''/''"
  by (simp add: lower_alnum_def)

lemma takeWhile_segment:
  "list_all lower_alnum i \<Longrightarrow> takeWhile lower_alnum (i @ ''/link'') = i"
  by (induction i) (simp_all add: slash_not_alnum)

lemma dropWhile_segment:
  "list_all lower_alnum i \<Longrightarrow> dropWhile lower_alnum (i @ ''/link'') = ''/link''"
  by (induction i) (simp_all add: slash_not_alnum)

lemma dropWhile_segment_conv:
  assumes "dropWhile lower_alnum (i @ ''/link'') = ''/link''"
  shows "list_all lower_alnum i"
proof -
  have "takeWhile lower_alnum (i @ ''/link'') @ dropWhile lower_alnum (i @ ''/link'')
          = i @ ''/link''"
    by (rule takeWhile_dropWhile_id)
  then have "takeWhile lower_alnum (i @ ''/link'') = i"
    using assms by simp
  then have "\<forall>c \<in> set i. lower_alnum c"
    by (metis set_takeWhileD)
  then show ?thesis by (simp add: list_all_iff)
qed

lemma match_add_link_iff:
  "match_add_link (''/id/'' @ i @ ''/link'') = (i \<noteq> [] \<and> list_all lower_alnum i)"
proof (cases "list_all lower_alnum i")
  case True
  then show ?thesis
    by (simp add: match_add_link_def startsWith_def takeWhile_segment dropWhile_segment)
next
  case False
  then have "dropWhile lower_alnum (i @ ''/link'') \<noteq> ''/link''"
    using dropWhile_segment_conv by blast
  then show ?thesis using False
    by (simp add: match_add_link_def)
qed

lemma split_on_segment:
  "c \<notin> set i \<Longrightarrow> split_on c (i @ c # rest) = i # split_on c rest"
  by (induction i) auto

lemma path_segment:
  assumes "list_all lower_alnum i"
  shows "at_index (split_on CHR ''/'' (''/id/'' @ i @ ''/link'')) 2 = Some i"
proof -
  have "CHR ''/'' \<notin> set i"
    using assms slash_not_alnum by (auto simp: list_all_iff)
  then have "split_on CHR ''/'' (i @ ''/link'') = [i, ''link'']"
    by (simp add: split_on_segment)
  then show ?thesis by (simp add: at_index_def)
qed

text \<open>
  C5. An authorized \<open>POST /id/<i>/link\<close> whose body has a non-empty \<open>type\<close> and
  \<open>url\<close> always answers. When no tag has id \<open>i\<close> the answer is 404 and nothing
  changes. The success answer (201) is given only when the tag exists; then \<open>tags\<close> is
  exactly as before, so the owning row keeps its \<open>updated_at\<close>, and \<open>links\<close> has
  gained exactly one row, for \<open>i\<close> with the given type and url. Success is reached
  whenever the tag exists and \<open>i\<close> is a non-empty run of \<open>[a-z0-9]\<close>, the shape of
  every generated id.
\<close>

theorem add_link_effect:
  assumes role: "getRole req env \<noteq> none"
    and route: "r_method req = ''POST''" "r_path req = ''/id/'' @ i @ ''/link''"
    and body: "r_body req = Some b" "b_type b = Some ty" "ty \<noteq> []" "b_url b = Some u" "u \<noteq> []"
    and run: "fetch env rnd now req w = (out, w')"
  shows "(first_tag i (tags w) = None \<longrightarrow>
            (out = Returned (error ''Tag not found'' 404) \<or>
             out = Returned (error ''Not found'' 404)) \<and> w' = w) \<and>
         (out = Returned (json P_ok 201) \<longrightarrow>
            first_tag i (tags w) \<noteq> None \<and>
            tags w' = tags w \<and>
            links w' = links w @ [\<lparr>l_id = Suc (link_seq w), l_tag_id = i, l_type = ty,
                                   l_url = u, l_created_at = now\<rparr>] \<and>
            draws w' = draws w) \<and>
         (first_tag i (tags w) \<noteq> None \<and> i \<noteq> [] \<and> list_all lower_alnum i \<longrightarrow>
            out = Returned (json P_ok 201)) \<and>
         (\<forall>resp. out = Returned resp \<and> status resp = 201 \<longrightarrow> resp = json P_ok 201) \<and>
         out \<noteq> Threw"
proof (cases "i \<noteq> [] \<and> list_all lower_alnum i")
  case True
  then have m: "match_add_link (r_path req)"
    using route(2) match_add_link_iff [of i] by simp
  have seg: "at_index (split_on CHR ''/'' (r_path req)) 2 = Some i"
    using True route(2) path_segment [of i] by simp
  have "r_path req \<noteq> ''/health''" "r_path req \<noteq> ''/id''"
    using route(2) by simp_all
  then have h: "handle_add_link now req w = (out, w')"
    using role route(1) m run by (simp add: fetch_def)
  show ?thesis
  proof (cases "first_tag i (tags w)")
    case None
    then show ?thesis
      using h seg body by (auto simp: handle_add_link_def error_def json_def)
  next
    case (Some t)
    then show ?thesis
      using h seg body
      by (auto simp: handle_add_link_def insert_link_def error_def json_def)
  qed
next
  case False
  then have m: "\<not> match_add_link (r_path req)"
    using route(2) match_add_link_iff [of i] by simp
  have "r_path req \<noteq> ''/health''" "r_path req \<noteq> ''/id''"
    using route(2) by simp_all
  then have "out = Returned (error ''Not found'' 404)" "w' = w"
    using role route(1) m run by (simp_all add: fetch_def)
  then show ?thesis using False by (auto simp: error_def json_def)
qed

text \<open>Adding a link to an existing tag, and to a tag that does not exist.\<close>

theorem add_link_effect_witness:
  "fetch \<lparr>PXD_ADMIN_KEY = ''adminsecret'', PXD_AGENT_KEY = ''agentsecret''\<rparr> (\<lambda>_. 1/4) 9
     \<lparr>r_method = ''POST'', r_path = ''/id/pxabc2345/link'', r_q = None,
      r_key = Some ''agentsecret'',
      r_body = Some \<lparr>b_name = None, b_meta = None, b_type = Some ''github'',
                      b_url = Some ''https://github.com/x/echo''\<rparr>\<rparr>
     \<lparr>tags = [\<lparr>t_id = ''pxabc2345'', t_name = ''Echo project'', t_meta = JObj [],
                t_created_at = 1, t_updated_at = 1\<rparr>],
      links = [], link_seq = 0, draws = 0\<rparr>
   = (Returned (json P_ok 201),
      \<lparr>tags = [\<lparr>t_id = ''pxabc2345'', t_name = ''Echo project'', t_meta = JObj [],
                 t_created_at = 1, t_updated_at = 1\<rparr>],
       links = [\<lparr>l_id = 1, l_tag_id = ''pxabc2345'', l_type = ''github'',
                  l_url = ''https://github.com/x/echo'', l_created_at = 9\<rparr>],
       link_seq = 1, draws = 0\<rparr>) \<and>
   first_tag ''pxabc2345''
     [\<lparr>t_id = ''pxabc2345'', t_name = ''Echo project'', t_meta = JObj [],
       t_created_at = 1, t_updated_at = 1\<rparr>] \<noteq> None \<and>
   fetch \<lparr>PXD_ADMIN_KEY = ''adminsecret'', PXD_AGENT_KEY = ''agentsecret''\<rparr> (\<lambda>_. 1/4) 9
     \<lparr>r_method = ''POST'', r_path = ''/id/pxabc2345/link'', r_q = None,
      r_key = Some ''agentsecret'',
      r_body = Some \<lparr>b_name = None, b_meta = None, b_type = Some ''github'',
                      b_url = Some ''https://github.com/x/echo''\<rparr>\<rparr>
     \<lparr>tags = [], links = [], link_seq = 0, draws = 0\<rparr>
   = (Returned (error ''Tag not found'' 404),
      \<lparr>tags = [], links = [], link_seq = 0, draws = 0\<rparr>)"
proof -
  let ?env = "\<lparr>PXD_ADMIN_KEY = ''adminsecret'', PXD_AGENT_KEY = ''agentsecret''\<rparr>"
  let ?b = "\<lparr>b_name = None, b_meta = None, b_type = Some ''github'',
             b_url = Some ''https://github.com/x/echo''\<rparr>"
  let ?req = "\<lparr>r_method = ''POST'', r_path = ''/id/pxabc2345/link'', r_q = None,
      r_key = Some ''agentsecret'', r_body = Some ?b\<rparr>"
  let ?t = "\<lparr>t_id = ''pxabc2345'', t_name = ''Echo project'', t_meta = JObj [],
                t_created_at = 1, t_updated_at = 1\<rparr>"
  let ?w = "\<lparr>tags = [?t], links = [], link_seq = 0, draws = 0\<rparr>"
  let ?w' = "\<lparr>tags = [?t],
       links = [\<lparr>l_id = 1, l_tag_id = ''pxabc2345'', l_type = ''github'',
                  l_url = ''https://github.com/x/echo'', l_created_at = 9\<rparr>],
       link_seq = 1, draws = 0\<rparr>"
  let ?e = "\<lparr>tags = [], links = [], link_seq = 0, draws = 0\<rparr>"
  have role: "getRole ?req ?env \<noteq> none" by (simp add: getRole_def)
  have path: "r_path ?req = ''/id/'' @ ''pxabc2345'' @ ''/link''" by simp
  have run: "fetch ?env (\<lambda>_. 1/4) 9 ?req ?w = (Returned (json P_ok 201), ?w')"
    by (simp add: fetch_def getRole_def startsWith_def match_add_link_def
        lower_alnum_def handle_add_link_def at_index_def first_tag_def insert_link_def)
  have run2: "fetch ?env (\<lambda>_. 1/4) 9 ?req ?e = (Returned (error ''Tag not found'' 404), ?e)"
    by (simp add: fetch_def getRole_def startsWith_def match_add_link_def
        lower_alnum_def handle_add_link_def at_index_def first_tag_def)
  have "first_tag ''pxabc2345'' (tags ?w) \<noteq> None"
    using add_link_effect [OF role _ path _ _ _ _ _ run, of ?b "''github''"
        "''https://github.com/x/echo''"]
    by simp
  then show ?thesis using run run2 by simp
qed

text \<open>
  Every admin \<open>DELETE\<close> whose path has the remove-link shape is answered by the
  delete-tag route, which comes first and accepts every path under \<open>/id/\<close>.
\<close>

lemma remove_link_shadowed:
  assumes "getRole req env = admin" "r_method req = ''DELETE''" "match_remove_link (r_path req)"
  shows "fetch env rnd now req w = (Returned (json P_ok 200), delete_tag (drop 4 (r_path req)) w)"
proof -
  have p: "startsWith ''/id/'' (r_path req)"
    using assms(3) by (simp add: match_remove_link_def)
  then have "r_path req \<noteq> ''/health''" by (auto simp: startsWith_def)
  then show ?thesis
    using assms(1,2) p by (simp add: fetch_def handle_delete_def)
qed

text \<open>
  C7, evaluated. The admin request \<open>DELETE /id/pxabc2345/link/github\<close> has the
  remove-link shape; the store holds the tag and one \<open>github\<close> link of it. The answer is
  \<open>{ok: true}\<close> (200) and the link is still there.
\<close>

theorem remove_link_keeps_links:
  "match_remove_link ''/id/pxabc2345/link/github'' \<and>
   fetch \<lparr>PXD_ADMIN_KEY = ''adminsecret'', PXD_AGENT_KEY = ''agentsecret''\<rparr> (\<lambda>_. 1/4) 9
     \<lparr>r_method = ''DELETE'', r_path = ''/id/pxabc2345/link/github'', r_q = None,
      r_key = Some ''adminsecret'', r_body = None\<rparr>
     \<lparr>tags = [\<lparr>t_id = ''pxabc2345'', t_name = ''Echo project'', t_meta = JObj [],
                t_created_at = 1, t_updated_at = 1\<rparr>],
      links = [\<lparr>l_id = 1, l_tag_id = ''pxabc2345'', l_type = ''github'',
                 l_url = ''https://github.com/x/echo'', l_created_at = 2\<rparr>],
      link_seq = 1, draws = 0\<rparr>
   = (Returned (json P_ok 200),
      \<lparr>tags = [\<lparr>t_id = ''pxabc2345'', t_name = ''Echo project'', t_meta = JObj [],
                 t_created_at = 1, t_updated_at = 1\<rparr>],
       links = [\<lparr>l_id = 1, l_tag_id = ''pxabc2345'', l_type = ''github'',
                  l_url = ''https://github.com/x/echo'', l_created_at = 2\<rparr>],
       link_seq = 1, draws = 0\<rparr>)"
  by (simp add: fetch_def getRole_def startsWith_def handle_delete_def delete_tag_def
        match_remove_link_def lower_alnum_def lower_alpha_def)

subsection \<open>Update\<close>

lemma fetch_put:
  assumes "getRole req env = admin" "r_method req = ''PUT''" "r_path req = ''/id/'' @ i"
  shows "fetch env rnd now req w = handle_update admin now req w"
proof -
  have "r_path req \<noteq> ''/health''" "startsWith ''/id/'' (r_path req)"
    using assms(3) by (simp_all add: startsWith_def)
  then show ?thesis using assms(1,2) by (simp add: fetch_def)
qed

lemma first_tag_map:
  assumes "\<And>t. t_id (f t) = t_id t"
  shows "first_tag i (map f ts) = map_option f (first_tag i ts)"
  by (induction ts) (simp_all add: first_tag_def assms)

lemma first_tag_None_iff: "first_tag i ts = None \<longleftrightarrow> (\<forall>t \<in> set ts. t_id t \<noteq> i)"
  by (auto simp: first_tag_def find_None_iff)

lemma first_tag_Some_id: "first_tag i ts = Some t \<Longrightarrow> t_id t = i"
  by (auto simp: first_tag_def find_Some_iff)

lemma first_tag_update_tag:
  assumes "first_tag i (tags w) = Some t"
  shows "first_tag i (tags (update_tag i new_name new_meta now w)) =
           Some (t\<lparr>t_name := (case new_name of None \<Rightarrow> t_name t | Some n \<Rightarrow> n),
                   t_meta := (case new_meta of None \<Rightarrow> t_meta t | Some m \<Rightarrow> m),
                   t_updated_at := now\<rparr>)"
  using assms first_tag_Some_id [OF assms]
  by (simp add: update_tag_def first_tag_map)

text \<open>
  C6, as the code has it. An admin \<open>PUT /id/<i>\<close> with a parsed body answers
  \<open>Not found\<close> (404) exactly when no tag has id \<open>i\<close>, and then nothing changes;
  otherwise it answers \<open>{ok: true}\<close>. \<open>links\<close> is never touched, no row is added or
  removed, no row changes its id or \<open>created_at\<close>, and rows of other ids are unchanged.
  In a row of id \<open>i\<close>: \<open>updated_at\<close> becomes \<open>now\<close>; a provided non-empty name and a
  provided meta take their new values; a name or meta that is not provided stays.
\<close>

theorem update_partial:
  assumes role: "getRole req env = admin"
    and route: "r_method req = ''PUT''" "r_path req = ''/id/'' @ i"
    and body: "r_body req = Some b"
    and run: "fetch env rnd now req w = (out, w')"
  shows "((out = Returned (error ''Not found'' 404)) = (first_tag i (tags w) = None)) \<and>
         (first_tag i (tags w) = None \<longrightarrow> w' = w) \<and>
         (first_tag i (tags w) \<noteq> None \<longrightarrow> out = Returned (json P_ok 200)) \<and>
         links w' = links w \<and> link_seq w' = link_seq w \<and> draws w' = draws w \<and>
         length (tags w') = length (tags w) \<and>
         (\<forall>k < length (tags w).
            t_id (tags w' ! k) = t_id (tags w ! k) \<and>
            t_created_at (tags w' ! k) = t_created_at (tags w ! k) \<and>
            (t_id (tags w ! k) \<noteq> i \<longrightarrow> tags w' ! k = tags w ! k) \<and>
            (t_id (tags w ! k) = i \<longrightarrow>
               t_updated_at (tags w' ! k) = now \<and>
               (\<forall>n. b_name b = Some n \<and> n \<noteq> [] \<longrightarrow> t_name (tags w' ! k) = n) \<and>
               (b_name b = None \<longrightarrow> t_name (tags w' ! k) = t_name (tags w ! k)) \<and>
               (\<forall>m. b_meta b = Some m \<longrightarrow> t_meta (tags w' ! k) = m) \<and>
               (b_meta b = None \<longrightarrow> t_meta (tags w' ! k) = t_meta (tags w ! k))))"
proof -
  have h: "handle_update admin now req w = (out, w')"
    using fetch_put [OF role route] run by simp
  have i: "drop 4 (r_path req) = i" using route(2) by simp
  show ?thesis
  proof (cases "first_tag i (tags w)")
    case None
    then have "out = Returned (error ''Not found'' 404)" "w' = w"
      using h body i by (simp_all add: handle_update_def Let_def)
    moreover have "\<forall>k < length (tags w). t_id (tags w ! k) \<noteq> i"
      using None by (simp add: first_tag_None_iff)
    ultimately show ?thesis using None by simp
  next
    case (Some t)
    then have o: "out = Returned (json P_ok 200)"
      and w': "w' = update_tag i (if truthy_str (b_name b) then b_name b else None)
                     (b_meta b) now w"
      using h body i by (simp_all add: handle_update_def Let_def)
    have ne: "out \<noteq> Returned (error ''Not found'' 404)"
      using o by (simp add: error_def json_def)
    have rows: "\<forall>k < length (tags w).
            t_id (tags w' ! k) = t_id (tags w ! k) \<and>
            t_created_at (tags w' ! k) = t_created_at (tags w ! k) \<and>
            (t_id (tags w ! k) \<noteq> i \<longrightarrow> tags w' ! k = tags w ! k) \<and>
            (t_id (tags w ! k) = i \<longrightarrow>
               t_updated_at (tags w' ! k) = now \<and>
               (\<forall>n. b_name b = Some n \<and> n \<noteq> [] \<longrightarrow> t_name (tags w' ! k) = n) \<and>
               (b_name b = None \<longrightarrow> t_name (tags w' ! k) = t_name (tags w ! k)) \<and>
               (\<forall>m. b_meta b = Some m \<longrightarrow> t_meta (tags w' ! k) = m) \<and>
               (b_meta b = None \<longrightarrow> t_meta (tags w' ! k) = t_meta (tags w ! k)))"
      unfolding w' by (simp add: update_tag_def)
    have "links w' = links w" "link_seq w' = link_seq w" "draws w' = draws w"
      "length (tags w') = length (tags w)"
      unfolding w' by (simp_all add: update_tag_def)
    then show ?thesis using o ne Some rows by simp
  qed
qed

text \<open>Renaming one of two tags, and the same request on an empty store.\<close>

theorem update_partial_witness:
  "fetch \<lparr>PXD_ADMIN_KEY = ''adminsecret'', PXD_AGENT_KEY = ''agentsecret''\<rparr> (\<lambda>_. 1/4) 9
     \<lparr>r_method = ''PUT'', r_path = ''/id/pxabc2345'', r_q = None, r_key = Some ''adminsecret'',
      r_body = Some \<lparr>b_name = Some ''Foxtrot'', b_meta = None, b_type = None, b_url = None\<rparr>\<rparr>
     \<lparr>tags = [\<lparr>t_id = ''pxabc2345'', t_name = ''Echo project'', t_meta = JObj [],
                t_created_at = 1, t_updated_at = 1\<rparr>,
              \<lparr>t_id = ''pxzzz9999'', t_name = ''Other'', t_meta = JNull,
                t_created_at = 2, t_updated_at = 2\<rparr>],
      links = [], link_seq = 0, draws = 0\<rparr>
   = (Returned (json P_ok 200),
      \<lparr>tags = [\<lparr>t_id = ''pxabc2345'', t_name = ''Foxtrot'', t_meta = JObj [],
                 t_created_at = 1, t_updated_at = 9\<rparr>,
               \<lparr>t_id = ''pxzzz9999'', t_name = ''Other'', t_meta = JNull,
                 t_created_at = 2, t_updated_at = 2\<rparr>],
       links = [], link_seq = 0, draws = 0\<rparr>) \<and>
   fetch \<lparr>PXD_ADMIN_KEY = ''adminsecret'', PXD_AGENT_KEY = ''agentsecret''\<rparr> (\<lambda>_. 1/4) 9
     \<lparr>r_method = ''PUT'', r_path = ''/id/pxabc2345'', r_q = None, r_key = Some ''adminsecret'',
      r_body = Some \<lparr>b_name = Some ''Foxtrot'', b_meta = None, b_type = None, b_url = None\<rparr>\<rparr>
     \<lparr>tags = [], links = [], link_seq = 0, draws = 0\<rparr>
   = (Returned (error ''Not found'' 404), \<lparr>tags = [], links = [], link_seq = 0, draws = 0\<rparr>)"
proof -
  let ?env = "\<lparr>PXD_ADMIN_KEY = ''adminsecret'', PXD_AGENT_KEY = ''agentsecret''\<rparr>"
  let ?b = "\<lparr>b_name = Some ''Foxtrot'', b_meta = None, b_type = None, b_url = None\<rparr>"
  let ?req = "\<lparr>r_method = ''PUT'', r_path = ''/id/pxabc2345'', r_q = None,
               r_key = Some ''adminsecret'', r_body = Some ?b\<rparr>"
  let ?w = "\<lparr>tags = [\<lparr>t_id = ''pxabc2345'', t_name = ''Echo project'', t_meta = JObj [],
                t_created_at = 1, t_updated_at = 1\<rparr>,
              \<lparr>t_id = ''pxzzz9999'', t_name = ''Other'', t_meta = JNull,
                t_created_at = 2, t_updated_at = 2\<rparr>],
      links = [], link_seq = 0, draws = 0\<rparr>"
  let ?w' = "\<lparr>tags = [\<lparr>t_id = ''pxabc2345'', t_name = ''Foxtrot'', t_meta = JObj [],
                 t_created_at = 1, t_updated_at = 9\<rparr>,
               \<lparr>t_id = ''pxzzz9999'', t_name = ''Other'', t_meta = JNull,
                 t_created_at = 2, t_updated_at = 2\<rparr>],
       links = [], link_seq = 0, draws = 0\<rparr>"
  let ?e = "\<lparr>tags = [], links = [], link_seq = 0, draws = 0\<rparr>"
  have role: "getRole ?req ?env = admin" by (simp add: getRole_def)
  have path: "r_path ?req = ''/id/'' @ ''pxabc2345''" by simp
  obtain out w' where run: "fetch ?env (\<lambda>_. 1/4) 9 ?req ?e = (out, w')"
    by (cases "fetch ?env (\<lambda>_. 1/4) 9 ?req ?e") auto
  have "out = Returned (error ''Not found'' 404) \<and> w' = ?e"
    using update_partial [OF role _ path _ run, of ?b] by (simp add: first_tag_def)
  then have run2: "fetch ?env (\<lambda>_. 1/4) 9 ?req ?e = (Returned (error ''Not found'' 404), ?e)"
    using run by simp
  have run1: "fetch ?env (\<lambda>_. 1/4) 9 ?req ?w = (Returned (json P_ok 200), ?w')"
    by (simp add: fetch_def getRole_def startsWith_def handle_update_def first_tag_def
        update_tag_def)
  show ?thesis using run1 run2 by simp
qed

text \<open>
  C6 as stated lets every provided field take its new value. A body that provides the
  empty string as name is answered \<open>{ok: true}\<close>, and the stored name is not the empty
  string.
\<close>

theorem update_partial_counterexample:
  "b_name \<lparr>b_name = Some [], b_meta = None, b_type = None, b_url = None\<rparr> = Some [] \<and>
   fetch \<lparr>PXD_ADMIN_KEY = ''adminsecret'', PXD_AGENT_KEY = ''agentsecret''\<rparr> (\<lambda>_. 1/4) 9
     \<lparr>r_method = ''PUT'', r_path = ''/id/pxabc2345'', r_q = None, r_key = Some ''adminsecret'',
      r_body = Some \<lparr>b_name = Some [], b_meta = None, b_type = None, b_url = None\<rparr>\<rparr>
     \<lparr>tags = [\<lparr>t_id = ''pxabc2345'', t_name = ''Echo project'', t_meta = JObj [],
                t_created_at = 1, t_updated_at = 1\<rparr>],
      links = [], link_seq = 0, draws = 0\<rparr>
   = (Returned (json P_ok 200),
      \<lparr>tags = [\<lparr>t_id = ''pxabc2345'', t_name = ''Echo project'', t_meta = JObj [],
                 t_created_at = 1, t_updated_at = 9\<rparr>],
       links = [], link_seq = 0, draws = 0\<rparr>) \<and>
   ''Echo project'' \<noteq> []"
  by (simp add: fetch_def getRole_def startsWith_def handle_update_def first_tag_def
        update_tag_def)

text \<open>
  C10, as the code has it. An admin \<open>PUT /id/<i>\<close> on an existing tag whose body sets
  \<open>name\<close> to the empty string answers \<open>{ok: true}\<close>; every stored name is as before,
  and the row of \<open>i\<close> is the old row with \<open>updated_at = now\<close> (and the body's meta, if
  it has one). For every \<open>PUT\<close> request whatsoever, a name that differs from the one
  stored before is not the empty string.
\<close>

theorem update_empty_name:
  assumes run: "fetch env rnd now req w = (out, w')"
    and put: "r_method req = ''PUT''"
  shows "(\<forall>b t. getRole req env = admin \<and> r_path req = ''/id/'' @ i \<and> r_body req = Some b \<and>
                b_name b = Some [] \<and> first_tag i (tags w) = Some t \<longrightarrow>
            out = Returned (json P_ok 200) \<and>
            map t_name (tags w') = map t_name (tags w) \<and>
            first_tag i (tags w') =
              Some (t\<lparr>t_meta := (case b_meta b of None \<Rightarrow> t_meta t | Some m \<Rightarrow> m),
                      t_updated_at := now\<rparr>)) \<and>
         length (tags w') = length (tags w) \<and>
         (\<forall>k < length (tags w).
            t_name (tags w' ! k) \<noteq> t_name (tags w ! k) \<longrightarrow> t_name (tags w' ! k) \<noteq> [])"
proof (intro conjI allI impI)
  fix b t
  assume a: "getRole req env = admin \<and> r_path req = ''/id/'' @ i \<and> r_body req = Some b \<and>
             b_name b = Some [] \<and> first_tag i (tags w) = Some t"
  then have h: "handle_update admin now req w = (out, w')"
    using fetch_put [of req env i rnd now w] put run by simp
  have i: "drop 4 (r_path req) = i" using a by simp
  have o: "out = Returned (json P_ok 200)"
    and w': "w' = update_tag i None (b_meta b) now w"
    using h a i by (simp_all add: handle_update_def Let_def)
  show "out = Returned (json P_ok 200)" by (rule o)
  show "map t_name (tags w') = map t_name (tags w)"
    unfolding w' by (simp add: update_tag_def comp_def cong: map_cong)
  show "first_tag i (tags w') =
              Some (t\<lparr>t_meta := (case b_meta b of None \<Rightarrow> t_meta t | Some m \<Rightarrow> m),
                      t_updated_at := now\<rparr>)"
    using a first_tag_update_tag [of i w t None "b_meta b" now] by (simp add: w')
next
  show "length (tags w') = length (tags w)"
    using run put
    by (auto simp: fetch_def handle_update_def update_tag_def Let_def
             split: if_splits option.splits)
next
  fix k
  assume "k < length (tags w)" "t_name (tags w' ! k) \<noteq> t_name (tags w ! k)"
  then show "t_name (tags w' ! k) \<noteq> []"
    using run put
    by (auto simp: fetch_def handle_update_def update_tag_def Let_def
             split: if_splits option.splits)
qed

text \<open>An empty name together with a new meta: the meta and \<open>updated_at\<close> change.\<close>

theorem update_empty_name_witness:
  "fetch \<lparr>PXD_ADMIN_KEY = ''adminsecret'', PXD_AGENT_KEY = ''agentsecret''\<rparr> (\<lambda>_. 1/4) 12
     \<lparr>r_method = ''PUT'', r_path = ''/id/pxk8f3m2n'', r_q = None, r_key = Some ''adminsecret'',
      r_body = Some \<lparr>b_name = Some [], b_meta = Some (JObj [(''k'', JNum 1)]), b_type = None,
                      b_url = None\<rparr>\<rparr>
     \<lparr>tags = [\<lparr>t_id = ''pxk8f3m2n'', t_name = ''Stripe token'', t_meta = JObj [],
                t_created_at = 3, t_updated_at = 4\<rparr>],
      links = [], link_seq = 0, draws = 0\<rparr>
   = (Returned (json P_ok 200),
      \<lparr>tags = [\<lparr>t_id = ''pxk8f3m2n'', t_name = ''Stripe token'',
                 t_meta = JObj [(''k'', JNum 1)], t_created_at = 3, t_updated_at = 12\<rparr>],
       links = [], link_seq = 0, draws = 0\<rparr>) \<and>
   map t_name [\<lparr>t_id = ''pxk8f3m2n'', t_name = ''Stripe token'',
                 t_meta = JObj [(''k'', JNum 1)], t_created_at = 3, t_updated_at = 12\<rparr>]
     = map t_name [\<lparr>t_id = ''pxk8f3m2n'', t_name = ''Stripe token'', t_meta = JObj [],
                t_created_at = 3, t_updated_at = 4\<rparr>]"
proof -
  let ?env = "\<lparr>PXD_ADMIN_KEY = ''adminsecret'', PXD_AGENT_KEY = ''agentsecret''\<rparr>"
  let ?b = "\<lparr>b_name = Some [], b_meta = Some (JObj [(''k'', JNum 1)]), b_type = None,
             b_url = None\<rparr>"
  let ?req = "\<lparr>r_method = ''PUT'', r_path = ''/id/pxk8f3m2n'', r_q = None,
               r_key = Some ''adminsecret'', r_body = Some ?b\<rparr>"
  let ?t = "\<lparr>t_id = ''pxk8f3m2n'', t_name = ''Stripe token'', t_meta = JObj [],
                t_created_at = 3, t_updated_at = 4\<rparr>"
  let ?t' = "\<lparr>t_id = ''pxk8f3m2n'', t_name = ''Stripe token'',
                 t_meta = JObj [(''k'', JNum 1)], t_created_at = 3, t_updated_at = 12\<rparr>"
  let ?w = "\<lparr>tags = [?t], links = [], link_seq = 0, draws = 0\<rparr>"
  let ?w' = "\<lparr>tags = [?t'], links = [], link_seq = 0, draws = 0\<rparr>"
  have run: "fetch ?env (\<lambda>_. 1/4) 12 ?req ?w = (Returned (json P_ok 200), ?w')"
    by (simp add: fetch_def getRole_def startsWith_def handle_update_def first_tag_def
        update_tag_def)
  have pre: "getRole ?req ?env = admin \<and> r_path ?req = ''/id/'' @ ''pxk8f3m2n'' \<and>
             r_body ?req = Some ?b \<and> b_name ?b = Some [] \<and>
             first_tag ''pxk8f3m2n'' (tags ?w) = Some ?t"
    by (simp add: getRole_def first_tag_def)
  have put: "r_method ?req = ''PUT''" by simp
  have "map t_name (tags ?w') = map t_name (tags ?w)"
    using update_empty_name [OF run put, of "''pxk8f3m2n''"] pre by blast
  then show ?thesis using run by simp
qed

text \<open>
  C10 as stated speaks of every \<open>PUT /id/:id\<close> request on an existing tag. The same
  request with the agent key is answered \<open>Admin required\<close> (403), not ok, and the row
  keeps its \<open>updated_at\<close>.
\<close>

theorem update_empty_name_counterexample:
  "first_tag ''pxk8f3m2n''
     [\<lparr>t_id = ''pxk8f3m2n'', t_name = ''Stripe token'', t_meta = JObj [],
       t_created_at = 3, t_updated_at = 4\<rparr>]
   = Some \<lparr>t_id = ''pxk8f3m2n'', t_name = ''Stripe token'', t_meta = JObj [],
           t_created_at = 3, t_updated_at = 4\<rparr> \<and>
   fetch \<lparr>PXD_ADMIN_KEY = ''adminsecret'', PXD_AGENT_KEY = ''agentsecret''\<rparr> (\<lambda>_. 1/4) 12
     \<lparr>r_method = ''PUT'', r_path = ''/id/pxk8f3m2n'', r_q = None, r_key = Some ''agentsecret'',
      r_body = Some \<lparr>b_name = Some [], b_meta = None, b_type = None, b_url = None\<rparr>\<rparr>
     \<lparr>tags = [\<lparr>t_id = ''pxk8f3m2n'', t_name = ''Stripe token'', t_meta = JObj [],
                t_created_at = 3, t_updated_at = 4\<rparr>],
      links = [], link_seq = 0, draws = 0\<rparr>
   = (Returned (error ''Admin required'' 403),
      \<lparr>tags = [\<lparr>t_id = ''pxk8f3m2n'', t_name = ''Stripe token'', t_meta = JObj [],
                 t_created_at = 3, t_updated_at = 4\<rparr>],
       links = [], link_seq = 0, draws = 0\<rparr>) \<and>
   error ''Admin required'' 403 \<noteq> json P_ok 200 \<and>
   (4::int) \<noteq> 12"
  by (simp add: fetch_def getRole_def startsWith_def handle_update_def first_tag_def
        error_def json_def)

end
